theory Spec2Isabelle
  imports Main
begin

section \<open>Python values used by the training notebook\<close>

text \<open>
  The code under verification is the two tutorial notebooks of DLWP-CS.  The notebook
  \<^verbatim>\<open>3 - Training a DLWP-CS model\<close> defines two functions of its own, \<^verbatim>\<open>unet2\<close> and
  \<^verbatim>\<open>complete_model\<close>, and a handful of derived values (\<^verbatim>\<open>input_names\<close>, \<^verbatim>\<open>input_solar\<close>,
  \<^verbatim>\<open>solar_inputs\<close>, \<^verbatim>\<open>inputs\<close>, \<^verbatim>\<open>model\<close>).  Python integers are \<open>int\<close>, Python strings
  are \<open>string\<close>, a raise is the \<open>Inl\<close> branch of a sum.
\<close>

datatype py_error = IndexError | KeyError

text \<open>
  Subscription \<^verbatim>\<open>xs[i]\<close> of a list or tuple: an index below zero counts from the end, an
  index outside \<^verbatim>\<open>-len(xs) .. len(xs) - 1\<close> raises \<^verbatim>\<open>IndexError\<close>.
\<close>

definition getitem :: "'a list \<Rightarrow> int \<Rightarrow> py_error + 'a" where
  "getitem xs i =
     (if 0 \<le> i \<and> i < int (length xs) then Inr (xs ! nat i)
      else if i < 0 \<and> 0 \<le> int (length xs) + i then Inr (xs ! nat (int (length xs) + i))
      else Inl IndexError)"

text \<open>\<^verbatim>\<open>range(a, b)\<close> with step one: the integers from \<open>a\<close> up to \<open>b - 1\<close>, none when \<open>b \<le> a\<close>.\<close>

definition py_range :: "int \<Rightarrow> int \<Rightarrow> int list" where
  "py_range a b = [a..b - 1]"

text \<open>The conversion \<^verbatim>\<open>'%d' % i\<close>: the decimal digits of \<open>i\<close>, after a minus sign when \<open>i < 0\<close>.\<close>

definition digit_char :: "nat \<Rightarrow> char" where
  "digit_char d = ''0123456789'' ! d"

fun digits :: "nat \<Rightarrow> string" where
  "digits n = (if n < 10 then [digit_char n] else digits (n div 10) @ [digit_char (n mod 10)])"

definition format_d :: "int \<Rightarrow> string" where
  "format_d i = (if i < 0 then CHR ''-'' # digits (nat (- i)) else digits (nat i))"

section \<open>The names of the generator's inputs\<close>

text \<open>
  \<^verbatim>\<open>input_names = ['main_input'] + ['solar_%d' % i for i in range(1, integration_steps)]\<close>
\<close>

definition input_names :: "int \<Rightarrow> string list" where
  "input_names integration_steps =
     [''main_input''] @ map (\<lambda>i. ''solar_'' @ format_d i) (py_range 1 integration_steps)"

section \<open>The layers of the external packages\<close>

text \<open>
  Every layer the notebook creates comes from \<^verbatim>\<open>tensorflow.keras.layers\<close> or from
  \<^verbatim>\<open>DLWP.custom\<close>; none of them is defined in this repository.  They are parameters of the
  model: a record with one field for each layer object the notebook binds to a name and
  calls in \<^verbatim>\<open>unet2\<close>, and one for each Keras constructor that \<^verbatim>\<open>complete_model\<close> and the
  model cell call.  \<open>'a\<close> is the type of Keras tensors and \<open>'r\<close> the type of what a call
  gives back: \<open>'a\<close> itself when the layers are taken as total functions on tensors, as in
  most of this theory, and \<open>'e + 'a\<close> when a call may raise an exception of type \<open>'e\<close>.

  \<^item> \<open>Input shape name\<close> is \<^verbatim>\<open>Input(shape=shape, name=name)\<close>;
  \<^item> \<open>concatenate ts axis\<close> is \<^verbatim>\<open>concatenate(ts, axis=axis)\<close>;
  \<^item> \<open>Reshape shape t\<close> is \<^verbatim>\<open>Reshape(shape)(t)\<close>, \<open>Permute dims t\<close> is
    \<^verbatim>\<open>Permute(dims)(t)\<close> and \<open>Concatenate axis ts\<close> is \<^verbatim>\<open>Concatenate(axis=axis)(ts)\<close>.
\<close>

record ('a, 'r) layer_calls =
  Input :: "int list \<Rightarrow> string \<Rightarrow> 'r"
  cube_padding_1 :: "'a \<Rightarrow> 'r"
  pooling_2 :: "'a \<Rightarrow> 'r"
  up_sampling_2 :: "'a \<Rightarrow> 'r"
  relu :: "'a \<Rightarrow> 'r"
  conv_2d_1 :: "'a \<Rightarrow> 'r"
  conv_2d_1_2 :: "'a \<Rightarrow> 'r"
  conv_2d_2 :: "'a \<Rightarrow> 'r"
  conv_2d_2_2 :: "'a \<Rightarrow> 'r"
  conv_2d_5 :: "'a \<Rightarrow> 'r"
  conv_2d_5_2 :: "'a \<Rightarrow> 'r"
  conv_2d_6 :: "'a \<Rightarrow> 'r"
  conv_2d_6_2 :: "'a \<Rightarrow> 'r"
  conv_2d_7 :: "'a \<Rightarrow> 'r"
  conv_2d_7_2 :: "'a \<Rightarrow> 'r"
  conv_2d_8 :: "'a \<Rightarrow> 'r"
  concatenate :: "'a list \<Rightarrow> int \<Rightarrow> 'r"
  Reshape :: "int list \<Rightarrow> 'a \<Rightarrow> 'r"
  Permute :: "int list \<Rightarrow> 'a \<Rightarrow> 'r"
  Concatenate :: "int \<Rightarrow> 'a list \<Rightarrow> 'r"

type_synonym 'a layers = "('a, 'a) layer_calls"

section \<open>The U-Net\<close>

text \<open>
  \<^verbatim>\<open>def unet2(x)\<close>, statement by statement.  The names \<open>x0\<close>, \<open>x1\<close>, \<open>x2\<close> and \<open>x\<close> are
  rebound as in the source.
\<close>

definition unet2 :: "'a layers \<Rightarrow> 'a \<Rightarrow> 'a" where
  "unet2 L x =
     (let x0 = cube_padding_1 L x;
          x0 = relu L (conv_2d_1 L x0);
          x0 = cube_padding_1 L x0;
          x0 = relu L (conv_2d_1_2 L x0);
          x1 = pooling_2 L x0;
          x1 = cube_padding_1 L x1;
          x1 = relu L (conv_2d_2 L x1);
          x1 = cube_padding_1 L x1;
          x1 = relu L (conv_2d_2_2 L x1);
          x2 = pooling_2 L x1;
          x2 = cube_padding_1 L x2;
          x2 = relu L (conv_2d_5_2 L x2);
          x2 = cube_padding_1 L x2;
          x2 = relu L (conv_2d_5 L x2);
          x2 = up_sampling_2 L x2;
          x = concatenate L [x2, x1] (- 1);
          x = cube_padding_1 L x;
          x = relu L (conv_2d_6_2 L x);
          x = cube_padding_1 L x;
          x = relu L (conv_2d_6 L x);
          x = up_sampling_2 L x;
          x = concatenate L [x, x0] (- 1);
          x = cube_padding_1 L x;
          x = relu L (conv_2d_7 L x);
          x = cube_padding_1 L x;
          x = relu L (conv_2d_7_2 L x);
          x = conv_2d_8 L x
      in x)"

section \<open>The parameters of the notebook\<close>

text \<open>
  The user-selected parameters that the functions below read as globals, the two shapes
  the data generator provides (\<^verbatim>\<open>cs = generator.convolution_shape\<close> and
  \<^verbatim>\<open>generator.insolation_shape\<close>), and \<^verbatim>\<open>globals()\<close> restricted to the names bound to a model
  function, which is how \<^verbatim>\<open>complete_model\<close> uses it.  \<open>'r\<close> is again what a call of a model
  function gives back.
\<close>

record ('a, 'r) parameters =
  cnn_model_name :: string
  integration_steps :: int
  io_time_steps :: int
  add_solar :: bool
  use_mp_optimizer :: bool
  cs :: "int list"
  insolation_shape :: "int list"
  globals :: "string \<rightharpoonup> ('a \<Rightarrow> 'r)"

type_synonym 'a params = "('a, 'a) parameters"

text \<open>\<^verbatim>\<open>input_solar = (integration_steps > 1 and add_solar)\<close>\<close>

definition input_solar :: "('a, 'r, 'z) parameters_scheme \<Rightarrow> bool" where
  "input_solar P \<longleftrightarrow> integration_steps P > 1 \<and> add_solar P"

section \<open>The sequence model\<close>

text \<open>
  The argument of \<^verbatim>\<open>complete_model\<close> is one tensor, or a list or tuple of tensors
  (\<^verbatim>\<open>isinstance(x_in, (list, tuple))\<close>).
\<close>

datatype 'a x_in = Tensor 'a | Sequence "'a list"

fun is_seq :: "'a x_in \<Rightarrow> bool" where
  "is_seq (Tensor x) = False"
| "is_seq (Sequence xs) = True"

text \<open>
  The body of the loop between reading \<^verbatim>\<open>xo = outputs[step - 1]\<close> and the call of the model
  function: with a sequence as input and \<^verbatim>\<open>input_solar\<close> set, the previous output is
  reshaped, concatenated with the permuted insolation input \<^verbatim>\<open>x_in[step]\<close> and reshaped to
  \<^verbatim>\<open>cs\<close>; otherwise it is passed on as it is.  \<^verbatim>\<open>cs[:-1] + (io_time_steps, -1)\<close> is
  \<open>butlast cs @ [io_time_steps, - 1]\<close>.
\<close>

fun next_input :: "'a layers \<Rightarrow> 'a params \<Rightarrow> 'a x_in \<Rightarrow> int \<Rightarrow> 'a \<Rightarrow> py_error + 'a" where
  "next_input L P (Sequence xs) step xo =
     (if input_solar P then
        (let xo = Reshape L (butlast (cs P) @ [io_time_steps P, - 1]) xo in
         case getitem xs step of
           Inl e \<Rightarrow> Inl e
         | Inr s \<Rightarrow>
             (let xo = Concatenate L (- 1) [xo, Permute L [2, 3, 4, 1, 5] s];
                  xo = Reshape L (cs P) xo
              in Inr xo))
      else Inr xo)"
| "next_input L P (Tensor x) step xo = Inr xo"

text \<open>
  The loop \<^verbatim>\<open>for step in range(1, integration_steps)\<close>, over the steps that are left, with
  the list \<open>outputs\<close> built so far.
\<close>

fun complete_loop ::
  "'a layers \<Rightarrow> 'a params \<Rightarrow> ('a \<Rightarrow> 'a) \<Rightarrow> 'a x_in \<Rightarrow> 'a list \<Rightarrow> int list \<Rightarrow> py_error + 'a list"
where
  "complete_loop L P model_function x_in outputs [] = Inr outputs"
| "complete_loop L P model_function x_in outputs (step # steps) =
     (case getitem outputs (step - 1) of
        Inl e \<Rightarrow> Inl e
      | Inr xo \<Rightarrow>
          (case next_input L P x_in step xo of
             Inl e \<Rightarrow> Inl e
           | Inr xo \<Rightarrow>
               complete_loop L P model_function x_in (outputs @ [model_function xo]) steps))"

text \<open>
  \<^verbatim>\<open>def complete_model(x_in)\<close>: the model function is looked up by name
  (\<^verbatim>\<open>globals()[cnn_model_name]\<close>, a \<^verbatim>\<open>KeyError\<close> when the name is unbound), applied to the
  first input, and then once for every further integration step.
\<close>

definition complete_model :: "'a layers \<Rightarrow> 'a params \<Rightarrow> 'a x_in \<Rightarrow> py_error + 'a list" where
  "complete_model L P x_in =
     (case globals P (cnn_model_name P) of
        None \<Rightarrow> Inl KeyError
      | Some model_function \<Rightarrow>
          (case (case x_in of Sequence xs \<Rightarrow> getitem xs 0 | Tensor x \<Rightarrow> Inr x) of
             Inl e \<Rightarrow> Inl e
           | Inr xi \<Rightarrow>
               complete_loop L P model_function x_in [model_function xi]
                 (py_range 1 (integration_steps P))))"

section \<open>The Keras model\<close>

text \<open>
  \<^verbatim>\<open>main_input = Input(shape=cs, name='main_input')\<close> and, bound only when \<^verbatim>\<open>input_solar\<close>
  holds, \<^verbatim>\<open>solar_inputs = [Input(shape=generator.insolation_shape, name='solar_%d' % d)
  for d in range(1, integration_steps)]\<close>.
\<close>

definition main_input :: "'a layers \<Rightarrow> 'a params \<Rightarrow> 'a" where
  "main_input L P = Input L (cs P) ''main_input''"

definition solar_inputs :: "'a layers \<Rightarrow> 'a params \<Rightarrow> 'a list" where
  "solar_inputs L P =
     map (\<lambda>d. Input L (insolation_shape P) (''solar_'' @ format_d d))
       (py_range 1 (integration_steps P))"

text \<open>
  The cell that builds the model: \<^verbatim>\<open>inputs\<close> is the main input alone when \<^verbatim>\<open>input_solar\<close> is
  false, else the list of the main input and the insolation inputs.
\<close>

definition inputs :: "'a layers \<Rightarrow> 'a params \<Rightarrow> 'a x_in" where
  "inputs L P =
     (if \<not> input_solar P then Tensor (main_input L P)
      else (let inputs = [main_input L P] in
            if input_solar P then Sequence (inputs @ solar_inputs L P) else Sequence inputs))"

text \<open>
  \<^verbatim>\<open>model = Model(inputs=inputs, outputs=complete_model(inputs))\<close>: the model is the pair
  of its inputs and outputs.
\<close>

record 'a keras_model =
  model_inputs :: "'a x_in"
  model_outputs :: "'a list"

definition model :: "'a layers \<Rightarrow> 'a params \<Rightarrow> py_error + 'a keras_model" where
  "model L P =
     (case complete_model L P (inputs L P) of
        Inl e \<Rightarrow> Inl e
      | Inr outputs \<Rightarrow> Inr \<lparr>model_inputs = inputs L P, model_outputs = outputs\<rparr>)"

text \<open>The number of input tensors of a model, one for a single tensor.\<close>

fun n_inputs :: "'a x_in \<Rightarrow> nat" where
  "n_inputs (Tensor x) = 1"
| "n_inputs (Sequence xs) = length xs"

section \<open>Layers that may raise\<close>

text \<open>
  The two functions once more, with layers and model functions that return a tensor or
  raise: \<open>Inl e\<close> is the exception \<open>e\<close>.  Python runs the calls of a function body in order
  and leaves the function at the first exception; \<open>and_then r k\<close> goes on with \<open>k\<close> when \<open>r\<close>
  is a value and stops with the exception otherwise.  Neither function has a handler.
\<close>

definition and_then :: "'e + 'a \<Rightarrow> ('a \<Rightarrow> 'e + 'b) \<Rightarrow> 'e + 'b" where
  "and_then r k = (case r of Inl e \<Rightarrow> Inl e | Inr v \<Rightarrow> k v)"

text \<open>
  \<^verbatim>\<open>def unet2(x)\<close>, call by call; \<open>c\<close> is the result of the convolution inside
  \<^verbatim>\<open>relu(conv(...))\<close>.
\<close>

definition unet2_raising :: "('a, 'e + 'a) layer_calls \<Rightarrow> 'a \<Rightarrow> 'e + 'a" where
  "unet2_raising L x =
     and_then (cube_padding_1 L x) (\<lambda>x0.
     and_then (conv_2d_1 L x0) (\<lambda>c.
     and_then (relu L c) (\<lambda>x0.
     and_then (cube_padding_1 L x0) (\<lambda>x0.
     and_then (conv_2d_1_2 L x0) (\<lambda>c.
     and_then (relu L c) (\<lambda>x0.
     and_then (pooling_2 L x0) (\<lambda>x1.
     and_then (cube_padding_1 L x1) (\<lambda>x1.
     and_then (conv_2d_2 L x1) (\<lambda>c.
     and_then (relu L c) (\<lambda>x1.
     and_then (cube_padding_1 L x1) (\<lambda>x1.
     and_then (conv_2d_2_2 L x1) (\<lambda>c.
     and_then (relu L c) (\<lambda>x1.
     and_then (pooling_2 L x1) (\<lambda>x2.
     and_then (cube_padding_1 L x2) (\<lambda>x2.
     and_then (conv_2d_5_2 L x2) (\<lambda>c.
     and_then (relu L c) (\<lambda>x2.
     and_then (cube_padding_1 L x2) (\<lambda>x2.
     and_then (conv_2d_5 L x2) (\<lambda>c.
     and_then (relu L c) (\<lambda>x2.
     and_then (up_sampling_2 L x2) (\<lambda>x2.
     and_then (concatenate L [x2, x1] (- 1)) (\<lambda>x.
     and_then (cube_padding_1 L x) (\<lambda>x.
     and_then (conv_2d_6_2 L x) (\<lambda>c.
     and_then (relu L c) (\<lambda>x.
     and_then (cube_padding_1 L x) (\<lambda>x.
     and_then (conv_2d_6 L x) (\<lambda>c.
     and_then (relu L c) (\<lambda>x.
     and_then (up_sampling_2 L x) (\<lambda>x.
     and_then (concatenate L [x, x0] (- 1)) (\<lambda>x.
     and_then (cube_padding_1 L x) (\<lambda>x.
     and_then (conv_2d_7 L x) (\<lambda>c.
     and_then (relu L c) (\<lambda>x.
     and_then (cube_padding_1 L x) (\<lambda>x.
     and_then (conv_2d_7_2 L x) (\<lambda>c.
     and_then (relu L c) (\<lambda>x.
     conv_2d_8 L x))))))))))))))))))))))))))))))))))))"

text \<open>
  \<^verbatim>\<open>complete_model\<close> creates its layers itself, at every pass of the loop: \<^verbatim>\<open>Reshape(shape)\<close>,
  \<^verbatim>\<open>Permute(dims)\<close> and \<^verbatim>\<open>Concatenate(axis=axis)\<close> are calls of the three constructors, and the
  layer object that such a call returns is then called on a tensor, or on a list of
  tensors.  Both calls may raise.
\<close>

record ('a, 'e) layer_classes =
  Reshape_class :: "int list \<Rightarrow> 'e + ('a \<Rightarrow> 'e + 'a)"
  Permute_class :: "int list \<Rightarrow> 'e + ('a \<Rightarrow> 'e + 'a)"
  Concatenate_class :: "int \<Rightarrow> 'e + ('a list \<Rightarrow> 'e + 'a)"

text \<open>
  In \<^verbatim>\<open>complete_model\<close> an exception is one of Python's own (\<open>Inl\<close>, from a subscription or
  from the lookup in the globals) or one that a call raised (\<open>Inr\<close>).
\<close>

definition outside :: "'e + 'b \<Rightarrow> (py_error + 'e) + 'b" where
  "outside r = (case r of Inl e \<Rightarrow> Inl (Inr e) | Inr v \<Rightarrow> Inr v)"

definition own :: "py_error + 'b \<Rightarrow> (py_error + 'e) + 'b" where
  "own r = (case r of Inl e \<Rightarrow> Inl (Inl e) | Inr v \<Rightarrow> Inr v)"

text \<open>
  The three statements under \<^verbatim>\<open>if is_seq and input_solar\<close>, in the order in which Python
  evaluates them.  In
  \<^verbatim>\<open>xo = Concatenate(axis=-1)([xo, Permute((2, 3, 4, 1, 5))(x_in[step])])\<close> the callee
  \<^verbatim>\<open>Concatenate(axis=-1)\<close> comes first, then the elements of the list from left to right:
  the callee \<^verbatim>\<open>Permute(...)\<close>, its argument \<^verbatim>\<open>x_in[step]\<close>, the call of the permuting layer;
  the call of the concatenating layer comes last.
\<close>

fun next_input_raising ::
  "('a, 'e) layer_classes \<Rightarrow> ('a, 'e + 'a) parameters \<Rightarrow> 'a x_in \<Rightarrow> int \<Rightarrow> 'a
     \<Rightarrow> (py_error + 'e) + 'a" where
  "next_input_raising K P (Sequence xs) step xo =
     (if input_solar P then
        and_then (outside (Reshape_class K (butlast (cs P) @ [io_time_steps P, - 1]))) (\<lambda>reshape.
        and_then (outside (reshape xo)) (\<lambda>xo.
        and_then (outside (Concatenate_class K (- 1))) (\<lambda>joining.
        and_then (outside (Permute_class K [2, 3, 4, 1, 5])) (\<lambda>permuting.
        and_then (own (getitem xs step)) (\<lambda>s.
        and_then (outside (permuting s)) (\<lambda>p.
        and_then (outside (joining [xo, p])) (\<lambda>xo.
        and_then (outside (Reshape_class K (cs P))) (\<lambda>reshape.
        outside (reshape xo)))))))))
      else Inr xo)"
| "next_input_raising K P (Tensor x) step xo = Inr xo"

fun complete_loop_raising ::
  "('a, 'e) layer_classes \<Rightarrow> ('a, 'e + 'a) parameters \<Rightarrow> ('a \<Rightarrow> 'e + 'a) \<Rightarrow> 'a x_in
     \<Rightarrow> 'a list \<Rightarrow> int list \<Rightarrow> (py_error + 'e) + 'a list" where
  "complete_loop_raising K P model_function x_in outputs [] = Inr outputs"
| "complete_loop_raising K P model_function x_in outputs (step # steps) =
     and_then (own (getitem outputs (step - 1))) (\<lambda>xo.
     and_then (next_input_raising K P x_in step xo) (\<lambda>xo.
     and_then (outside (model_function xo)) (\<lambda>y.
     complete_loop_raising K P model_function x_in (outputs @ [y]) steps)))"

definition complete_model_raising ::
  "('a, 'e) layer_classes \<Rightarrow> ('a, 'e + 'a) parameters \<Rightarrow> 'a x_in
     \<Rightarrow> (py_error + 'e) + 'a list" where
  "complete_model_raising K P x_in =
     (case globals P (cnn_model_name P) of
        None \<Rightarrow> Inl (Inl KeyError)
      | Some model_function \<Rightarrow>
          and_then (own (case x_in of Sequence xs \<Rightarrow> getitem xs 0 | Tensor x \<Rightarrow> Inr x)) (\<lambda>xi.
          and_then (outside (model_function xi)) (\<lambda>y.
          complete_loop_raising K P model_function x_in [y]
            (py_range 1 (integration_steps P)))))"

text \<open>
  Layers, constructors and parameters that never raise, made from total ones, and the
  exceptions that some layer of \<^verbatim>\<open>unet2\<close> raises on some tensor.
\<close>

definition returning :: "'a layers \<Rightarrow> ('a, 'e + 'a) layer_calls" where
  "returning L = \<lparr>
     Input = (\<lambda>shape name. Inr (Input L shape name)),
     cube_padding_1 = (\<lambda>t. Inr (cube_padding_1 L t)),
     pooling_2 = (\<lambda>t. Inr (pooling_2 L t)),
     up_sampling_2 = (\<lambda>t. Inr (up_sampling_2 L t)),
     relu = (\<lambda>t. Inr (relu L t)),
     conv_2d_1 = (\<lambda>t. Inr (conv_2d_1 L t)),
     conv_2d_1_2 = (\<lambda>t. Inr (conv_2d_1_2 L t)),
     conv_2d_2 = (\<lambda>t. Inr (conv_2d_2 L t)),
     conv_2d_2_2 = (\<lambda>t. Inr (conv_2d_2_2 L t)),
     conv_2d_5 = (\<lambda>t. Inr (conv_2d_5 L t)),
     conv_2d_5_2 = (\<lambda>t. Inr (conv_2d_5_2 L t)),
     conv_2d_6 = (\<lambda>t. Inr (conv_2d_6 L t)),
     conv_2d_6_2 = (\<lambda>t. Inr (conv_2d_6_2 L t)),
     conv_2d_7 = (\<lambda>t. Inr (conv_2d_7 L t)),
     conv_2d_7_2 = (\<lambda>t. Inr (conv_2d_7_2 L t)),
     conv_2d_8 = (\<lambda>t. Inr (conv_2d_8 L t)),
     concatenate = (\<lambda>ts axis. Inr (concatenate L ts axis)),
     Reshape = (\<lambda>shape t. Inr (Reshape L shape t)),
     Permute = (\<lambda>dims t. Inr (Permute L dims t)),
     Concatenate = (\<lambda>axis ts. Inr (Concatenate L axis ts))\<rparr>"

definition returning_classes :: "'a layers \<Rightarrow> ('a, 'e) layer_classes" where
  "returning_classes L = \<lparr>
     Reshape_class = (\<lambda>shape. Inr (\<lambda>t. Inr (Reshape L shape t))),
     Permute_class = (\<lambda>dims. Inr (\<lambda>t. Inr (Permute L dims t))),
     Concatenate_class = (\<lambda>axis. Inr (\<lambda>ts. Inr (Concatenate L axis ts)))\<rparr>"

definition returning_params :: "'a params \<Rightarrow> ('a, 'e + 'a) parameters" where
  "returning_params P = \<lparr>
     cnn_model_name = cnn_model_name P,
     integration_steps = integration_steps P,
     io_time_steps = io_time_steps P,
     add_solar = add_solar P,
     use_mp_optimizer = use_mp_optimizer P,
     cs = cs P,
     insolation_shape = insolation_shape P,
     globals = (\<lambda>name. case globals P name of None \<Rightarrow> None | Some f \<Rightarrow> Some (\<lambda>t. Inr (f t)))\<rparr>"





section \<open>Symbolic tensors\<close>

text \<open>
  With the functional API every call of a layer on a Keras tensor adds a node to the
  graph of the model.  A symbolic tensor records the call that made it: an input of a
  given shape and name, or an operation applied to the list of its argument tensors.
  \<open>keras\<close> is the instance of the layers on symbolic tensors; each layer object is named
  as the notebook binds it.
\<close>

datatype tensor = In "int list" string | Op string "int list" "tensor list"

definition layer :: "string \<Rightarrow> tensor \<Rightarrow> tensor" where
  "layer name t = Op name [] [t]"

definition keras :: "tensor layers" where
  "keras = \<lparr>
     Input = In,
     cube_padding_1 = layer ''cube_padding_1'',
     pooling_2 = layer ''pooling_2'',
     up_sampling_2 = layer ''up_sampling_2'',
     relu = layer ''relu'',
     conv_2d_1 = layer ''conv_2d_1'',
     conv_2d_1_2 = layer ''conv_2d_1_2'',
     conv_2d_2 = layer ''conv_2d_2'',
     conv_2d_2_2 = layer ''conv_2d_2_2'',
     conv_2d_5 = layer ''conv_2d_5'',
     conv_2d_5_2 = layer ''conv_2d_5_2'',
     conv_2d_6 = layer ''conv_2d_6'',
     conv_2d_6_2 = layer ''conv_2d_6_2'',
     conv_2d_7 = layer ''conv_2d_7'',
     conv_2d_7_2 = layer ''conv_2d_7_2'',
     conv_2d_8 = layer ''conv_2d_8'',
     concatenate = (\<lambda>ts axis. Op ''concatenate'' [axis] ts),
     Reshape = (\<lambda>shape t. Op ''Reshape'' shape [t]),
     Permute = (\<lambda>dims t. Op ''Permute'' dims [t]),
     Concatenate = (\<lambda>axis ts. Op ''Concatenate'' [axis] ts)\<rparr>"

text \<open>
  The parameters as the notebook sets them: \<^verbatim>\<open>cnn_model_name = 'unet2'\<close>,
  \<^verbatim>\<open>io_time_steps = 2\<close>, \<^verbatim>\<open>use_mp_optimizer = False\<close>, and \<^verbatim>\<open>unet2\<close> bound in the globals.
  The number of integration steps (2 in the notebook) and \<^verbatim>\<open>add_solar\<close> (\<^verbatim>\<open>True\<close> in the
  notebook) are left as arguments, and so are the two shapes, which come from the
  generator.
\<close>

definition notebook :: "'a layers \<Rightarrow> int \<Rightarrow> bool \<Rightarrow> int list \<Rightarrow> int list \<Rightarrow> 'a params" where
  "notebook L steps solar shape sol_shape = \<lparr>
     cnn_model_name = ''unet2'',
     integration_steps = steps,
     io_time_steps = 2,
     add_solar = solar,
     use_mp_optimizer = False,
     cs = shape,
     insolation_shape = sol_shape,
     globals = [''unet2'' \<mapsto> unet2 L]\<rparr>"

section \<open>Inputs that the sequence model accepts\<close>

text \<open>
  The two subscriptions of \<^verbatim>\<open>x_in\<close> in \<^verbatim>\<open>complete_model\<close> are \<^verbatim>\<open>x_in[0]\<close>, evaluated for every
  sequence, and \<^verbatim>\<open>x_in[step]\<close>, evaluated for every step of the loop when \<^verbatim>\<open>input_solar\<close>
  holds.  \<open>accepted P x_in\<close> says that none of them is out of range: a single tensor, or a
  sequence that is not empty and, when \<^verbatim>\<open>input_solar\<close> holds, has an element for every
  integration step.  \<open>in_bounds P x_in b\<close> is the same for the steps up to \<open>b\<close> only, and
  \<open>first_input\<close> is \<^verbatim>\<open>x_in[0] if is_seq else x_in\<close> for an accepted input.
\<close>

fun accepted :: "('a, 'r) parameters \<Rightarrow> 'a x_in \<Rightarrow> bool" where
  "accepted P (Tensor x) = True"
| "accepted P (Sequence xs) =
     (xs \<noteq> [] \<and> (input_solar P \<longrightarrow> integration_steps P \<le> int (length xs)))"

fun in_bounds :: "('a, 'r) parameters \<Rightarrow> 'a x_in \<Rightarrow> int \<Rightarrow> bool" where
  "in_bounds P (Tensor x) b = True"
| "in_bounds P (Sequence xs) b = (input_solar P \<longrightarrow> b < int (length xs))"

fun first_input :: "'a x_in \<Rightarrow> 'a" where
  "first_input (Tensor x) = x"
| "first_input (Sequence xs) = xs ! 0"

section \<open>Measures on symbolic tensors\<close>

text \<open>
  Three readings of the graph below a symbolic tensor: \<open>spine\<close> lists the operations on
  the way from the input to the tensor that always takes the first argument (for the
  layers of \<^verbatim>\<open>unet2\<close> that is the order in which the source calls them), \<open>leaves\<close> lists
  the inputs the tensor is computed from, one entry for every path that leads to an
  input, and \<open>depth\<close> is the number of operations on the longest such path.
\<close>

fun spine :: "tensor \<Rightarrow> string list" where
  "spine (In shape name) = []"
| "spine (Op f args []) = [f]"
| "spine (Op f args (t # ts)) = spine t @ [f]"

fun leaves :: "tensor \<Rightarrow> tensor list" where
  "leaves (In shape name) = [In shape name]"
| "leaves (Op f args ts) = concat (map leaves ts)"

fun depth :: "tensor \<Rightarrow> nat" where
  "depth (In shape name) = 0"
| "depth (Op f args ts) = Suc (fold max (map depth ts) 0)"

text \<open>
  \<open>chain names t\<close> is the tensor at the end of a chain of layers of one argument, applied
  to \<open>t\<close> in the order of their names.
\<close>

definition chain :: "string list \<Rightarrow> tensor \<Rightarrow> tensor" where
  "chain names t = foldl (\<lambda>t name. layer name t) t names"

text \<open>
  Shapes for the concrete examples: six faces of 48 by 48 points with six channels, and
  the insolation on two time steps.  No property below depends on them.
\<close>

definition cs_example :: "int list" where
  "cs_example = [6, 48, 48, 6]"

definition insolation_example :: "int list" where
  "insolation_example = [2, 6, 48, 48, 1]"

text \<open>
  The objects of the concrete examples: the parameters of the notebook on symbolic
  tensors with these shapes, for a given number of integration steps and a given
  \<^verbatim>\<open>add_solar\<close>, and the tensors that \<^verbatim>\<open>Input\<close> returns for the main input and for the
  insolation of step 1.
\<close>

abbreviation tutorial :: "int \<Rightarrow> bool \<Rightarrow> tensor params" where
  "tutorial steps solar \<equiv> notebook keras steps solar cs_example insolation_example"

abbreviation main_in :: tensor where
  "main_in \<equiv> In cs_example ''main_input''"

abbreviation solar_in :: tensor where
  "solar_in \<equiv> In insolation_example ''solar_1''"

section \<open>The notebooks at the system boundary\<close>

text \<open>
  Seen from outside, a code cell is the sequence of calls it makes, in the order in which
  Python evaluates them.  Both notebooks are listed cell by cell (an empty list is a cell
  that only binds names to literals or defines a function):

  \<^item> \<open>Magic\<close> is an IPython line magic, \<open>Import\<close> the import of a module of an external
    package, \<open>Lib\<close> a call of a function, constructor or method of an external package
    (DLWP, TensorFlow/Keras, pandas, xarray, \<^verbatim>\<open>time\<close>), named as the source writes it;
  \<^item> \<open>Own\<close> is a call of a function that the notebook defines itself;
  \<^item> \<open>OsChdir\<close>, \<open>OsMakedirs\<close>, \<open>OpenDataset\<close>, \<open>ToNetcdf\<close> and \<open>Print\<close> are the calls by
    which notebook code itself reaches the file system, the process and standard output:
    \<^verbatim>\<open>os.chdir(path)\<close>, \<^verbatim>\<open>os.makedirs(path, exist_ok=...)\<close>, \<^verbatim>\<open>xr.open_dataset(path)\<close>,
    \<^verbatim>\<open>....to_netcdf(path)\<close> and \<^verbatim>\<open>print(...)\<close>.

  An argument of \<^verbatim>\<open>print\<close> is \<open>Text s\<close> when the notebook fixes the text, and \<open>Value\<close> when
  it is the rendering of a value that exists only at run time.  Reading an attribute of
  a library object is no call.
\<close>

datatype printed = Text string | Value

datatype call =
    Magic string
  | Import string
  | Lib string
  | Own string
  | OsChdir string
  | OsMakedirs string bool
  | OpenDataset string
  | ToNetcdf string
  | Print "printed list"

text \<open>
  \<^verbatim>\<open>os.pardir\<close>, and \<^verbatim>\<open>os.path.join(a, *p)\<close> as \<^verbatim>\<open>posixpath\<close> computes it: a component that
  starts with a slash replaces what was joined so far, any other one is appended, after a
  slash unless the path is empty or ends with one.
\<close>

definition os_pardir :: string where
  "os_pardir = ''..''"

definition os_path_join :: "string \<Rightarrow> string list \<Rightarrow> string" where
  "os_path_join a p =
     foldl (\<lambda>path b.
              if take 1 b = ''/'' then b
              else if path = [] \<or> last path = CHR ''/'' then path @ b
              else path @ ''/'' @ b) a p"

text \<open>
  The paths of the two notebooks.  \<^verbatim>\<open>processed_file = '%s/tutorial_z500_t2m.nc' %
  data_directory\<close>.
\<close>

definition data_directory :: string where
  "data_directory = ''/home/disk/wave2/jweyn/Data/ERA5''"

definition processed_file :: string where
  "processed_file = data_directory @ ''/tutorial_z500_t2m.nc''"

definition root_directory :: string where
  "root_directory = ''/home/disk/wave2/jweyn/Data''"

definition predictor_file :: string where
  "predictor_file = os_path_join root_directory [''ERA5'', ''tutorial_z500_t2m_CS.nc'']"

definition model_file :: string where
  "model_file = os_path_join root_directory [''dlwp-cs_tutorial'']"

definition log_directory :: string where
  "log_directory = os_path_join root_directory [''logs'', ''dlwp-cs_tutorial'']"

text \<open>The eight code cells of \<^verbatim>\<open>1 - Downloading and processing ERA5\<close>.\<close>

definition downloading_notebook :: "call list list" where
  "downloading_notebook =
    [[Magic ''conda install -c conda-forge cdsapi''],
     [],
     [Import ''os'', OsChdir os_pardir, Import ''DLWP.data'',
      OsMakedirs data_directory True,
      Lib ''ERA5Reanalysis'', Lib ''era.set_variables'', Lib ''era.set_levels''],
     [Lib ''era.retrieve''],
     [Lib ''era.open'', Print [Value]],
     [Import ''pandas'', Import ''DLWP.data.era5'',
      Lib ''pd.date_range'', Lib ''to_pydatetime'', Lib ''get_short_name''],
     [Import ''DLWP.model'', Lib ''Preprocessor'', Lib ''pp.data_to_series''],
     [Print [Value], Lib ''pp.data.drop'', ToNetcdf (processed_file @ ''.nocoord''),
      Lib ''era.close'', Lib ''pp.close'']]"

text \<open>
  The twenty-one code cells of \<^verbatim>\<open>3 - Training a DLWP-CS model\<close>.  The cell that creates
  the layers calls \<^verbatim>\<open>Input\<close> once more for every further integration step when
  \<^verbatim>\<open>input_solar\<close> holds, and the optimizer cell rewrites the optimizer only when
  \<^verbatim>\<open>use_mp_optimizer\<close> is set.  The calls of layers on tensors that \<^verbatim>\<open>complete_model(inputs)\<close>
  makes are those of \<open>complete_model\<close> above; the cell appears here with its call of the
  notebook's own function and the call of \<^verbatim>\<open>Model\<close>.
\<close>

definition training_notebook :: "'a params \<Rightarrow> call list list" where
  "training_notebook P =
    [[Import ''os'', OsChdir os_pardir],
     [],
     [],
     [],
     [Import ''pandas'', Lib ''pd.date_range'', Lib ''pd.date_range''],
     [],
     [Import ''DLWP.model'', Lib ''DLWPFunctional''],
     [Import ''xarray'', OpenDataset predictor_file, Lib ''data.sel'', Lib ''data.sel''],
     [Import ''DLWP.model.preprocessing'', Import ''DLWP.model'',
      Print [Text ''Loading data to memory...''],
      Lib ''prepare_data_array'', Lib ''ArrayDataGenerator''],
     [Print [Text ''Loading validation data to memory...''],
      Lib ''prepare_data_array'', Lib ''ArrayDataGenerator''],
     [Import ''DLWP.model'', Lib ''tf_data_generator'', Lib ''tf_data_generator''],
     [Import ''tensorflow.keras.layers'', Import ''DLWP.custom'', Lib ''Input'']
       @ (if input_solar P
          then map (\<lambda>d. Lib ''Input'') (py_range 1 (integration_steps P)) else [])
       @ [Lib ''CubeSpherePadding2D'', Lib ''AveragePooling3D'', Lib ''UpSampling3D'', Lib ''ReLU'']
       @ replicate 20 (Lib ''CubeSphereConv2D''),
     [],
     [Import ''tensorflow.keras.layers''],
     [Import ''tensorflow.keras.models'', Own ''complete_model'', Lib ''Model''],
     [Import ''tensorflow'', Import ''tensorflow.keras.optimizers'', Lib ''Adam'']
       @ (if use_mp_optimizer P
          then [Lib ''tf.train.experimental.enable_mixed_precision_graph_rewrite''] else []),
     [Lib ''dlwp.build_model'', Lib ''dlwp.base_model.summary'', Print [Value]],
     [Import ''tensorflow.keras.callbacks'', Import ''DLWP.custom'',
      Lib ''History'', Lib ''EarlyStoppingMin'', Lib ''TensorBoard''],
     [Import ''time'', Lib ''time.time'', Lib ''GeneratorEpochEnd'', Lib ''dlwp.fit_generator'',
      Lib ''time.time''],
     [Import ''DLWP.util'', Lib ''save_model'', Print [Text (''Wrote model '' @ model_file)]],
     [Print [Value], Lib ''val_generator.generate'', Lib ''dlwp.evaluate'',
      Print [Text ''Validation loss:'', Value], Print [Text ''Other scores:'', Value]]]"

text \<open>
  Running a cell: the calls are made in order against the world outside the notebook,
  \<open>world c w\<close> being what the call \<open>c\<close> does to the world \<open>w\<close>, an exception \<open>Inl e\<close> or the
  new world.  The notebooks have no \<^verbatim>\<open>try\<close> statement, so the first exception ends the
  cell.  The state carries the log of the calls that have returned.  \<open>run_all\<close> runs the
  cells of a notebook from top to bottom and stops at the first cell that raises.
\<close>

fun run_cell ::
  "(call \<Rightarrow> 'w \<Rightarrow> 'e + 'w) \<Rightarrow> call list \<Rightarrow> 'w \<times> call list \<Rightarrow> 'e + 'w \<times> call list" where
  "run_cell world [] s = Inr s"
| "run_cell world (c # calls) s =
     (case world c (fst s) of
        Inl e \<Rightarrow> Inl e
      | Inr w \<Rightarrow> run_cell world calls (w, snd s @ [c]))"

fun run_all ::
  "(call \<Rightarrow> 'w \<Rightarrow> 'e + 'w) \<Rightarrow> call list list \<Rightarrow> 'w \<times> call list \<Rightarrow> 'e + 'w \<times> call list" where
  "run_all world [] s = Inr s"
| "run_all world (cell # cells) s =
     (case run_cell world cell s of
        Inl e \<Rightarrow> Inl e
      | Inr s' \<Rightarrow> run_all world cells s')"

text \<open>
  The calls by which notebook code itself does input or output, those among them that
  write to the file system, and those that write to standard output.
\<close>

fun io :: "call \<Rightarrow> bool" where
  "io (OsChdir path) = True"
| "io (OsMakedirs path exist_ok) = True"
| "io (OpenDataset path) = True"
| "io (ToNetcdf path) = True"
| "io (Print ps) = True"
| "io c = False"

fun writes_files :: "call \<Rightarrow> bool" where
  "writes_files (OsMakedirs path exist_ok) = True"
| "writes_files (ToNetcdf path) = True"
| "writes_files c = False"

fun is_print :: "call \<Rightarrow> bool" where
  "is_print (Print ps) = True"
| "is_print c = False"

text \<open>
  Two worlds for the concrete examples: one in which every call returns, and one in
  which a given call raises a given exception and every other call returns.
\<close>

definition quiet :: "call \<Rightarrow> unit \<Rightarrow> string + unit" where
  "quiet c w = Inr w"


section \<open>Properties\<close>

subsection \<open>Subscription and ranges\<close>

lemma length_py_range: "length (py_range a b) = nat (b - a)"
  by (simp add: py_range_def)

lemma nth_py_range: "0 \<le> k \<Longrightarrow> a + k < b \<Longrightarrow> py_range a b ! nat k = a + k"
  by (simp add: py_range_def)

lemma getitem_nth: "0 \<le> i \<Longrightarrow> i < int (length xs) \<Longrightarrow> getitem xs i = Inr (xs ! nat i)"
  by (simp add: getitem_def)

lemma getitem_IndexError: "int (length xs) \<le> i \<Longrightarrow> getitem xs i = Inl IndexError"
  by (simp add: getitem_def)

subsection \<open>The loop of the sequence model\<close>

lemma next_input_total:
  "in_bounds P x_in b \<Longrightarrow> 0 \<le> step \<Longrightarrow> step \<le> b \<Longrightarrow> \<exists>xo'. next_input L P x_in step xo = Inr xo'"
  by (cases x_in) (auto simp add: getitem_nth Let_def)

lemma next_input_explicit:
  "in_bounds P x_in b \<Longrightarrow> 0 \<le> step \<Longrightarrow> step \<le> b \<Longrightarrow>
   next_input L P x_in step xo =
     Inr (case x_in of
            Tensor x \<Rightarrow> xo
          | Sequence xs \<Rightarrow>
              if input_solar P then
                Reshape L (cs P)
                  (Concatenate L (- 1)
                     [Reshape L (butlast (cs P) @ [io_time_steps P, - 1]) xo,
                      Permute L [2, 3, 4, 1, 5] (xs ! nat step)])
              else xo)"
  by (cases x_in) (auto simp add: getitem_nth Let_def)

lemma complete_loop_total:
  assumes "in_bounds P x_in b" and "1 \<le> a" and "int (length outs) = a"
  shows "\<exists>r. complete_loop L P f x_in outs [a..b] = Inr r \<and>
           length r = length outs + nat (b + 1 - a) \<and>
           take (length outs) r = outs \<and>
           (\<forall>step. a \<le> step \<and> step \<le> b \<longrightarrow>
              (\<exists>xo. next_input L P x_in step (r ! nat (step - 1)) = Inr xo \<and> r ! nat step = f xo))"
  using assms
proof (induction "nat (b + 1 - a)" arbitrary: a outs)
  case 0
  then have "[a..b] = []" by simp
  moreover have "b < a" using 0 by linarith
  ultimately show ?case by auto
next
  case (Suc k)
  then have ab: "a \<le> b" by linarith
  then have up: "[a..b] = a # [a + 1..b]" by (simp add: upto_rec1)
  have get: "getitem outs (a - 1) = Inr (outs ! nat (a - 1))"
    using Suc.prems by (simp add: getitem_nth)
  obtain xo where xo: "next_input L P x_in a (outs ! nat (a - 1)) = Inr xo"
    using next_input_total [of P x_in b a L] Suc.prems ab by fastforce
  let ?outs = "outs @ [f xo]"
  have k: "k = nat (b + 1 - (a + 1))" using Suc.hyps(2) by linarith
  have len: "int (length ?outs) = a + 1" using Suc.prems by simp
  from Suc.hyps(1) [OF k Suc.prems(1) _ len] Suc.prems(2)
  obtain r where r: "complete_loop L P f x_in ?outs [a + 1..b] = Inr r"
    and lr: "length r = length ?outs + nat (b + 1 - (a + 1))"
    and tr: "take (length ?outs) r = ?outs"
    and st: "\<forall>step. a + 1 \<le> step \<and> step \<le> b \<longrightarrow>
              (\<exists>xo. next_input L P x_in step (r ! nat (step - 1)) = Inr xo \<and> r ! nat step = f xo)"
    by auto
  have la: "length outs = nat a" using Suc.prems by linarith
  have pre: "\<And>i. i < length ?outs \<Longrightarrow> r ! i = ?outs ! i"
    using tr by (metis nth_take)
  have r1: "r ! nat (a - 1) = outs ! nat (a - 1)"
    using pre [of "nat (a - 1)"] la Suc.prems(2) by (simp add: nth_append)
  have r2: "r ! nat a = f xo"
    using pre [of "nat a"] la by (simp add: nth_append)
  have "complete_loop L P f x_in outs [a..b] = Inr r"
    using up get xo r by simp
  moreover have "length r = length outs + nat (b + 1 - a)"
    using lr ab by simp
  moreover have "take (length outs) r = outs"
  proof -
    have "take (length outs) r = take (length outs) (take (length ?outs) r)"
      by (simp add: min_def)
    also have "\<dots> = take (length outs) ?outs" by (simp only: tr)
    also have "\<dots> = outs" by simp
    finally show ?thesis .
  qed
  moreover have "\<forall>step. a \<le> step \<and> step \<le> b \<longrightarrow>
              (\<exists>xo. next_input L P x_in step (r ! nat (step - 1)) = Inr xo \<and> r ! nat step = f xo)"
  proof (intro allI impI)
    fix step assume s: "a \<le> step \<and> step \<le> b"
    show "\<exists>xo. next_input L P x_in step (r ! nat (step - 1)) = Inr xo \<and> r ! nat step = f xo"
    proof (cases "step = a")
      case True
      then show ?thesis using xo r1 r2 by simp
    next
      case False
      then show ?thesis using st s by simp
    qed
  qed
  ultimately show ?case by blast
qed

lemma accepted_in_bounds: "accepted P x_in \<Longrightarrow> in_bounds P x_in (integration_steps P - 1)"
  by (cases x_in) auto

lemma accepted_first:
  "accepted P x_in \<Longrightarrow>
     (case x_in of Sequence xs \<Rightarrow> getitem xs 0 | Tensor x \<Rightarrow> Inr x) = Inr (first_input x_in)"
  by (cases x_in) (auto simp add: getitem_def)

lemma complete_model_total:
  assumes g: "globals P (cnn_model_name P) = Some f" and acc: "accepted P x_in"
  shows "\<exists>outputs. complete_model L P x_in = Inr outputs \<and>
           length outputs = nat (max 1 (integration_steps P)) \<and>
           outputs ! 0 = f (first_input x_in) \<and>
           (\<forall>step. 1 \<le> step \<and> step < integration_steps P \<longrightarrow>
              (\<exists>xo. next_input L P x_in step (outputs ! nat (step - 1)) = Inr xo \<and>
                    outputs ! nat step = f xo))"
proof -
  let ?n = "integration_steps P"
  let ?o = "[f (first_input x_in)]"
  have "int (length ?o) = 1" by simp
  from complete_loop_total [OF accepted_in_bounds [OF acc] _ this, of L f]
  obtain r where r: "complete_loop L P f x_in ?o [1..?n - 1] = Inr r"
    and lr: "length r = length ?o + nat (?n - 1 + 1 - 1)"
    and tr: "take (length ?o) r = ?o"
    and st: "\<forall>step. 1 \<le> step \<and> step \<le> ?n - 1 \<longrightarrow>
              (\<exists>xo. next_input L P x_in step (r ! nat (step - 1)) = Inr xo \<and> r ! nat step = f xo)"
    by auto
  have "complete_model L P x_in = Inr r"
    using g r accepted_first [OF acc] by (simp add: complete_model_def py_range_def)
  moreover have "length r = nat (max 1 ?n)" using lr by simp
  moreover have "r ! 0 = f (first_input x_in)"
    using tr lr by (metis length_Cons list.size(3) nth_Cons_0 nth_take lessI)
  moreover have "\<forall>step. 1 \<le> step \<and> step < ?n \<longrightarrow>
              (\<exists>xo. next_input L P x_in step (r ! nat (step - 1)) = Inr xo \<and> r ! nat step = f xo)"
    using st by simp
  ultimately show ?thesis by blast
qed

lemma complete_loop_length:
  "complete_loop L P f x_in outs steps = Inr r \<Longrightarrow> length r = length outs + length steps"
  by (induction steps arbitrary: outs) (auto split: sum.splits)

lemma complete_loop_prefix:
  "complete_loop L P f x_in outs steps = Inr r \<Longrightarrow> take (length outs) r = outs"
proof (induction steps arbitrary: outs)
  case Nil
  then show ?case by simp
next
  case (Cons step steps)
  then obtain xo where "complete_loop L P f x_in (outs @ [f xo]) steps = Inr r"
    by (auto split: sum.splits)
  from Cons.IH [OF this] have "take (length (outs @ [f xo])) r = outs @ [f xo]" .
  then have "take (length outs) (take (length (outs @ [f xo])) r) = take (length outs) (outs @ [f xo])"
    by (simp only:)
  then show ?case by (simp add: min_def)
qed

lemma complete_loop_append:
  "complete_loop L P f x_in outs (steps1 @ steps2) =
     (case complete_loop L P f x_in outs steps1 of
        Inl e \<Rightarrow> Inl e
      | Inr r \<Rightarrow> complete_loop L P f x_in r steps2)"
  by (induction steps1 arbitrary: outs) (auto split: sum.splits)

lemma complete_model_length:
  "complete_model L P x_in = Inr outputs \<Longrightarrow> length outputs = nat (max 1 (integration_steps P))"
  by (auto simp add: complete_model_def length_py_range split: option.splits sum.splits
      dest!: complete_loop_length)

lemma complete_model_IndexError:
  assumes g: "globals P (cnn_model_name P) = Some f" and acc: "\<not> accepted P x_in"
  shows "complete_model L P x_in = Inl IndexError"
proof (cases x_in)
  case (Tensor x)
  with acc show ?thesis by simp
next
  case (Sequence xs)
  show ?thesis
  proof (cases "xs = []")
    case True
    with g Sequence show ?thesis by (simp add: complete_model_def getitem_def)
  next
    case False
    let ?n = "integration_steps P"
    let ?m = "int (length xs)"
    let ?o = "[f (xs ! 0)]"
    from False acc Sequence have sol: "input_solar P" and short: "?m < ?n" by auto
    have m1: "1 \<le> ?m" using False by (cases xs) auto
    have split: "[1..?n - 1] = [1..?m - 1] @ ?m # [?m + 1..?n - 1]"
      using m1 short by (intro upto_split3) simp_all
    have ib: "in_bounds P x_in (?m - 1)" using Sequence by simp
    have "int (length ?o) = 1" by simp
    from complete_loop_total [OF ib _ this, of L f]
    obtain r where r: "complete_loop L P f x_in ?o [1..?m - 1] = Inr r"
      and lr: "length r = length ?o + nat (?m - 1 + 1 - 1)"
      by auto
    have lr': "int (length r) = ?m" using lr False by (cases xs) simp_all
    have "getitem r (?m - 1) = Inr (r ! nat (?m - 1))"
      by (rule getitem_nth) (use lr' m1 in linarith)+
    moreover have "next_input L P x_in ?m (r ! nat (?m - 1)) = Inl IndexError"
      using Sequence sol by (simp add: getitem_IndexError Let_def)
    ultimately have "complete_loop L P f x_in r (?m # [?m + 1..?n - 1]) = Inl IndexError"
      by simp
    then have "complete_loop L P f x_in ?o [1..?n - 1] = Inl IndexError"
      using r by (simp only: split complete_loop_append sum.case)
    moreover have "getitem xs 0 = Inr (xs ! 0)" using False by (simp add: getitem_def)
    ultimately show ?thesis
      using g Sequence by (simp add: complete_model_def py_range_def)
  qed
qed

lemma complete_model_KeyError:
  "globals P (cnn_model_name P) = None \<Longrightarrow> complete_model L P x_in = Inl KeyError"
  by (simp add: complete_model_def)

lemma complete_model_iterates:
  assumes g: "globals P (cnn_model_name P) = Some f"
    and acc: "accepted P x_in"
    and plain: "is_seq x_in \<longrightarrow> \<not> input_solar P"
  shows "complete_model L P x_in =
           Inr (map (\<lambda>k. (f ^^ Suc k) (first_input x_in)) [0..<nat (max 1 (integration_steps P))])"
proof -
  let ?n = "integration_steps P"
  from complete_model_total [OF g acc, of L]
  obtain outputs where r: "complete_model L P x_in = Inr outputs"
    and len: "length outputs = nat (max 1 ?n)"
    and first: "outputs ! 0 = f (first_input x_in)"
    and st: "\<forall>step. 1 \<le> step \<and> step < ?n \<longrightarrow>
              (\<exists>xo. next_input L P x_in step (outputs ! nat (step - 1)) = Inr xo \<and>
                    outputs ! nat step = f xo)"
    by blast
  have same: "next_input L P x_in step xo = Inr xo" for step xo
    using plain by (cases x_in) simp_all
  have nth: "k < nat (max 1 ?n) \<Longrightarrow> outputs ! k = (f ^^ Suc k) (first_input x_in)" for k
  proof (induction k)
    case 0
    show ?case using first by simp
  next
    case (Suc k)
    define step where "step = int k + 1"
    have k: "nat (step - 1) = k" and k': "nat step = Suc k" by (simp_all add: step_def)
    from Suc.prems have s: "1 \<le> step \<and> step < ?n" by (auto simp add: step_def)
    from st s obtain xo
      where "next_input L P x_in step (outputs ! nat (step - 1)) = Inr xo"
        and o: "outputs ! nat step = f xo"
      by blast
    then have "xo = outputs ! k" by (simp add: same k)
    with o Suc show ?case by (simp add: k')
  qed
  have "outputs = map (\<lambda>k. (f ^^ Suc k) (first_input x_in)) [0..<nat (max 1 ?n)]"
    by (rule nth_equalityI) (simp_all add: len nth)
  with r show ?thesis by simp
qed

subsection \<open>Layers that may raise\<close>

lemma and_then_simps [simp]:
  "and_then (Inl e) k = Inl e"
  "and_then (Inr v) k = k v"
  by (simp_all add: and_then_def)


lemma and_then_Inr: "and_then r k = Inr y \<longleftrightarrow> (\<exists>v. r = Inr v \<and> k v = Inr y)"
  by (cases r) simp_all

lemma own_simps [simp]:
  "own (Inl pe) = Inl (Inl pe)"
  "own (Inr v) = Inr v"
  by (simp_all add: own_def)

lemma outside_simps [simp]:
  "outside (Inl e) = Inl (Inr e)"
  "outside (Inr v) = Inr v"
  by (simp_all add: outside_def)




lemma outside_Inr: "outside r = Inr v \<longleftrightarrow> r = Inr v"
  by (cases r) simp_all

lemma getitem_Inr: "0 \<le> i \<Longrightarrow> getitem xs i = Inr v \<Longrightarrow> v = xs ! nat i"
  by (simp add: getitem_def split: if_splits)

lemma returning_params_simps [simp]:
  "cnn_model_name (returning_params P) = cnn_model_name P"
  "integration_steps (returning_params P) = integration_steps P"
  "io_time_steps (returning_params P) = io_time_steps P"
  "cs (returning_params P) = cs P"
  "input_solar (returning_params P) = input_solar P"
  "globals (returning_params P) name =
     (case globals P name of None \<Rightarrow> None | Some f \<Rightarrow> Some (\<lambda>t. Inr (f t)))"
  by (simp_all add: returning_params_def input_solar_def)

lemma returning_classes_simps [simp]:
  "Reshape_class (returning_classes L) shape = Inr (\<lambda>t. Inr (Reshape L shape t))"
  "Permute_class (returning_classes L) dims = Inr (\<lambda>t. Inr (Permute L dims t))"
  "Concatenate_class (returning_classes L) axis = Inr (\<lambda>ts. Inr (Concatenate L axis ts))"
  by (simp_all add: returning_classes_def)

text \<open>
  When no call raises, the functions with raising layers return what the functions on
  total layers return, which is what the rest of this theory is about.
\<close>

lemma unet2_raising_returning: "unet2_raising (returning L) x = Inr (unet2 L x)"
  by (simp add: unet2_raising_def unet2_def returning_def Let_def)

lemma next_input_raising_returning:
  "next_input_raising (returning_classes L) (returning_params P) x_in step xo
     = own (next_input L P x_in step xo)"
  by (cases x_in) (simp_all add: Let_def split: sum.splits)

lemma complete_loop_raising_returning:
  "complete_loop_raising (returning_classes L) (returning_params P) (\<lambda>t. Inr (f t)) x_in outs steps
     = own (complete_loop L P f x_in outs steps)"
  by (induction steps arbitrary: outs)
     (simp_all add: next_input_raising_returning split: sum.splits)

lemma complete_model_raising_returning:
  "complete_model_raising (returning_classes L) (returning_params P) x_in
     = own (complete_model L P x_in)"
  by (simp add: complete_model_raising_def complete_model_def complete_loop_raising_returning
      split: option.splits sum.splits x_in.splits)









lemma complete_loop_raising_step:
  assumes "1 \<le> a" and "int (length outs) = a" and "a \<le> b"
  shows "complete_loop_raising K P f x_in outs [a..b] =
           and_then (next_input_raising K P x_in a (outs ! nat (a - 1))) (\<lambda>xo.
           and_then (outside (f xo)) (\<lambda>y.
           complete_loop_raising K P f x_in (outs @ [y]) [a + 1..b]))"
proof -
  have "[a..b] = a # [a + 1..b]" using assms(3) by (simp add: upto_rec1)
  moreover have "getitem outs (a - 1) = Inr (outs ! nat (a - 1))"
    using assms by (simp add: getitem_nth)
  ultimately show ?thesis by simp
qed

lemma complete_loop_raising_returns:
  assumes "complete_loop_raising K P f x_in outs [a..b] = Inr r"
    and "1 \<le> a" and "int (length outs) = a"
  shows "length r = length outs + nat (b + 1 - a) \<and>
         take (length outs) r = outs \<and>
         (\<forall>step. a \<le> step \<and> step \<le> b \<longrightarrow>
            (\<exists>xo. next_input_raising K P x_in step (r ! nat (step - 1)) = Inr xo \<and>
                  f xo = Inr (r ! nat step)))"
  using assms
proof (induction "nat (b + 1 - a)" arbitrary: a outs)
  case 0
  then have "[a..b] = []" and "b < a" by simp_all
  with 0 show ?case by auto
next
  case (Suc k)
  then have ab: "a \<le> b" by linarith
  from Suc.prems(1) obtain xo y
    where xo: "next_input_raising K P x_in a (outs ! nat (a - 1)) = Inr xo"
      and y: "f xo = Inr y"
      and rest: "complete_loop_raising K P f x_in (outs @ [y]) [a + 1..b] = Inr r"
    unfolding complete_loop_raising_step [OF Suc.prems(2,3) ab]
    by (auto simp add: and_then_Inr outside_Inr)
  let ?outs = "outs @ [y]"
  have k: "k = nat (b + 1 - (a + 1))" using Suc.hyps(2) by linarith
  have len: "int (length ?outs) = a + 1" using Suc.prems by simp
  from Suc.hyps(1) [OF k rest _ len] Suc.prems(2)
  have lr: "length r = length ?outs + nat (b + 1 - (a + 1))"
    and tr: "take (length ?outs) r = ?outs"
    and st: "\<forall>step. a + 1 \<le> step \<and> step \<le> b \<longrightarrow>
              (\<exists>xo. next_input_raising K P x_in step (r ! nat (step - 1)) = Inr xo \<and>
                    f xo = Inr (r ! nat step))"
    by auto
  have la: "length outs = nat a" using Suc.prems by linarith
  have pre: "\<And>i. i < length ?outs \<Longrightarrow> r ! i = ?outs ! i"
    using tr by (metis nth_take)
  have r1: "r ! nat (a - 1) = outs ! nat (a - 1)"
    using pre [of "nat (a - 1)"] la Suc.prems(2) by (simp add: nth_append)
  have r2: "r ! nat a = y"
    using pre [of "nat a"] la by (simp add: nth_append)
  have "length r = length outs + nat (b + 1 - a)"
    using lr ab by simp
  moreover have "take (length outs) r = outs"
  proof -
    have "take (length outs) r = take (length outs) (take (length ?outs) r)"
      by (simp add: min_def)
    also have "\<dots> = take (length outs) ?outs" by (simp only: tr)
    also have "\<dots> = outs" by simp
    finally show ?thesis .
  qed
  moreover have "\<forall>step. a \<le> step \<and> step \<le> b \<longrightarrow>
              (\<exists>xo. next_input_raising K P x_in step (r ! nat (step - 1)) = Inr xo \<and>
                    f xo = Inr (r ! nat step))"
  proof (intro allI impI)
    fix step assume s: "a \<le> step \<and> step \<le> b"
    show "\<exists>xo. next_input_raising K P x_in step (r ! nat (step - 1)) = Inr xo \<and>
                f xo = Inr (r ! nat step)"
    proof (cases "step = a")
      case True
      then show ?thesis using xo y r1 r2 by simp
    next
      case False
      then show ?thesis using st s by simp
    qed
  qed
  ultimately show ?case by blast
qed

lemma complete_loop_raising_returns_conv:
  assumes "1 \<le> a" and "int (length outs) = a"
    and "length r = length outs + nat (b + 1 - a)"
    and "take (length outs) r = outs"
    and "\<forall>step. a \<le> step \<and> step \<le> b \<longrightarrow>
            (\<exists>xo. next_input_raising K P x_in step (r ! nat (step - 1)) = Inr xo \<and>
                  f xo = Inr (r ! nat step))"
  shows "complete_loop_raising K P f x_in outs [a..b] = Inr r"
  using assms
proof (induction "nat (b + 1 - a)" arbitrary: a outs)
  case 0
  then have "[a..b] = []" by simp
  moreover have "r = outs" using 0 by (metis add.right_neutral take_all_iff le_refl)
  ultimately show ?case by simp
next
  case (Suc k)
  then have ab: "a \<le> b" by linarith
  have la: "length outs = nat a" using Suc.prems by linarith
  have lt: "length outs < length r" using Suc.prems(3) ab by linarith
  have r1: "r ! nat (a - 1) = outs ! nat (a - 1)"
  proof -
    have "nat (a - 1) < length outs" using la Suc.prems(1) by linarith
    then have "take (length outs) r ! nat (a - 1) = r ! nat (a - 1)" by simp
    then show ?thesis by (simp add: Suc.prems(4))
  qed
  from Suc.prems(5) ab obtain xo
    where xo: "next_input_raising K P x_in a (r ! nat (a - 1)) = Inr xo"
      and y: "f xo = Inr (r ! nat a)"
    by blast
  let ?outs = "outs @ [r ! nat a]"
  have k: "k = nat (b + 1 - (a + 1))" using Suc.hyps(2) by linarith
  have len: "int (length ?outs) = a + 1" using Suc.prems by simp
  have lr: "length r = length ?outs + nat (b + 1 - (a + 1))"
    using Suc.prems(3) ab by simp
  have tr: "take (length ?outs) r = ?outs"
    using take_Suc_conv_app_nth [OF lt] Suc.prems(4) la by simp
  have st: "\<forall>step. a + 1 \<le> step \<and> step \<le> b \<longrightarrow>
            (\<exists>xo. next_input_raising K P x_in step (r ! nat (step - 1)) = Inr xo \<and>
                  f xo = Inr (r ! nat step))"
    using Suc.prems(5) by simp
  have "complete_loop_raising K P f x_in ?outs [a + 1..b] = Inr r"
    using Suc.hyps(1) [OF k _ len lr tr st] Suc.prems(1) by simp
  then show ?case
    unfolding complete_loop_raising_step [OF Suc.prems(1,2) ab]
    using xo y r1 by simp
qed

lemma complete_loop_raising_returns_iff:
  assumes "1 \<le> a" and "int (length outs) = a"
  shows "complete_loop_raising K P f x_in outs [a..b] = Inr r \<longleftrightarrow>
         length r = length outs + nat (b + 1 - a) \<and>
         take (length outs) r = outs \<and>
         (\<forall>step. a \<le> step \<and> step \<le> b \<longrightarrow>
            (\<exists>xo. next_input_raising K P x_in step (r ! nat (step - 1)) = Inr xo \<and>
                  f xo = Inr (r ! nat step)))"
  using complete_loop_raising_returns [OF _ assms]
    complete_loop_raising_returns_conv [OF assms]
  by blast






subsection \<open>The inputs of the model and the graph on symbolic tensors\<close>

lemma notebook_simps [simp]:
  "cnn_model_name (notebook L n b s t) = ''unet2''"
  "integration_steps (notebook L n b s t) = n"
  "io_time_steps (notebook L n b s t) = 2"
  "add_solar (notebook L n b s t) = b"
  "cs (notebook L n b s t) = s"
  "insolation_shape (notebook L n b s t) = t"
  "globals (notebook L n b s t) ''unet2'' = Some (unet2 L)"
  by (simp_all add: notebook_def)

lemma Input_keras [simp]: "Input keras = In"
  by (simp add: keras_def)

lemma inputs_accepted: "accepted P (inputs L P)"
  by (simp add: inputs_def solar_inputs_def length_py_range input_solar_def Let_def)

lemma first_input_inputs: "first_input (inputs L P) = main_input L P"
  by (simp add: inputs_def Let_def)

lemma nth_solar_inputs:
  assumes "1 \<le> d" and "d < integration_steps P"
  shows "(main_input L P # solar_inputs L P) ! nat d =
           Input L (insolation_shape P) (''solar_'' @ format_d d)"
proof -
  have "nat d = Suc (nat (d - 1))" using assms by linarith
  moreover have "nat (d - 1) < length (py_range 1 (integration_steps P))"
    using assms by (simp add: length_py_range)
  moreover have "py_range 1 (integration_steps P) ! nat (d - 1) = d"
    using assms nth_py_range [of "d - 1" 1 "integration_steps P"] by simp
  ultimately show ?thesis by (simp add: solar_inputs_def)
qed

lemma leaves_unet2: "leaves (unet2 keras x) = leaves x @ leaves x @ leaves x"
  by (simp add: unet2_def keras_def layer_def Let_def)

lemma depth_unet2: "depth (unet2 keras x) = depth x + 37"
  by (simp add: unet2_def keras_def layer_def Let_def)

lemma depth_feed_back:
  "depth (Reshape keras s1 (Concatenate keras a [Reshape keras s2 xo, Permute keras d (In s3 nm)]))
     = depth xo + 3"
  by (simp add: keras_def)

lemma notebook_graph_depth:
  assumes n: "1 \<le> n"
  shows "\<exists>outputs.
           complete_model keras (notebook keras n b s t) (inputs keras (notebook keras n b s t))
             = Inr outputs \<and>
           length outputs = nat n \<and>
           (\<forall>k. k < nat n \<longrightarrow> depth (outputs ! k) = 37 * (k + 1) + (if b then 3 * k else 0))"
proof -
  let ?P = "notebook keras n b s t"
  let ?x = "inputs keras ?P"
  have g: "globals ?P (cnn_model_name ?P) = Some (unet2 keras)" by simp
  from complete_model_total [OF g inputs_accepted, of keras keras]
  obtain outputs where r: "complete_model keras ?P ?x = Inr outputs"
    and len: "length outputs = nat (max 1 n)"
    and first: "outputs ! 0 = unet2 keras (first_input ?x)"
    and st: "\<forall>step. 1 \<le> step \<and> step < n \<longrightarrow>
              (\<exists>xo. next_input keras ?P ?x step (outputs ! nat (step - 1)) = Inr xo \<and>
                    outputs ! nat step = unet2 keras xo)"
    by auto
  have ib: "in_bounds ?P ?x (n - 1)"
    using accepted_in_bounds [OF inputs_accepted, of ?P keras] by simp
  have d: "k < nat n \<Longrightarrow> depth (outputs ! k) = 37 * (k + 1) + (if b then 3 * k else 0)" for k
  proof (induction k)
    case 0
    show ?case using first by (simp add: first_input_inputs main_input_def depth_unet2)
  next
    case (Suc k)
    define step where "step = int k + 1"
    have k: "nat (step - 1) = k" and k': "nat step = Suc k" by (simp_all add: step_def)
    from Suc.prems have s: "1 \<le> step \<and> step < n" by (auto simp add: step_def)
    from st s obtain xo
      where xo: "next_input keras ?P ?x step (outputs ! nat (step - 1)) = Inr xo"
        and o: "outputs ! nat step = unet2 keras xo"
      by blast
    have b0: "0 \<le> step" and b1: "step \<le> n - 1" using s by auto
    have "depth xo = depth (outputs ! k) + (if b then 3 else 0)"
    proof (cases b)
      case True
      then have sol: "input_solar ?P" using s by (simp add: input_solar_def)
      then have x: "?x = Sequence (main_input keras ?P # solar_inputs keras ?P)"
        by (simp add: inputs_def Let_def)
      have "(main_input keras ?P # solar_inputs keras ?P) ! nat step
              = In t (''solar_'' @ format_d step)"
        using nth_solar_inputs [of step ?P keras] s by simp
      moreover have "xo = Reshape keras s
                (Concatenate keras (- 1)
                   [Reshape keras (butlast s @ [2, - 1]) (outputs ! k),
                    Permute keras [2, 3, 4, 1, 5]
                      ((main_input keras ?P # solar_inputs keras ?P) ! nat step)])"
        using next_input_explicit [OF ib b0 b1, of keras "outputs ! nat (step - 1)"] xo x sol
        by (simp add: k)
      ultimately show ?thesis
        using True by (simp only: depth_feed_back if_True)
    next
      case False
      then have "\<not> input_solar ?P" by (simp add: input_solar_def)
      then have "?x = Tensor (main_input keras ?P)" by (simp add: inputs_def)
      with next_input_explicit [OF ib b0 b1, of keras "outputs ! nat (step - 1)"] xo False
      show ?thesis by (simp add: k)
    qed
    moreover have "depth (outputs ! k) = 37 * (k + 1) + (if b then 3 * k else 0)"
      using Suc by simp
    ultimately show ?case using o by (simp add: depth_unet2 k')
  qed
  have "length outputs = nat n" using len n by simp
  with r d show ?thesis by blast
qed

lemma unet2_graph:
  "unet2 keras x =
     (let x0 = chain [''cube_padding_1'', ''conv_2d_1'', ''relu'',
                      ''cube_padding_1'', ''conv_2d_1_2'', ''relu''] x;
          x1 = chain [''pooling_2'', ''cube_padding_1'', ''conv_2d_2'', ''relu'',
                      ''cube_padding_1'', ''conv_2d_2_2'', ''relu''] x0;
          x2 = chain [''pooling_2'', ''cube_padding_1'', ''conv_2d_5_2'', ''relu'',
                      ''cube_padding_1'', ''conv_2d_5'', ''relu'', ''up_sampling_2''] x1;
          x3 = chain [''cube_padding_1'', ''conv_2d_6_2'', ''relu'',
                      ''cube_padding_1'', ''conv_2d_6'', ''relu'', ''up_sampling_2'']
                 (Op ''concatenate'' [- 1] [x2, x1])
      in chain [''cube_padding_1'', ''conv_2d_7'', ''relu'',
                ''cube_padding_1'', ''conv_2d_7_2'', ''relu'', ''conv_2d_8'']
           (Op ''concatenate'' [- 1] [x3, x0]))"
  by (simp add: unet2_def keras_def chain_def Let_def)

lemma keras_layers_of_loop:
  "Reshape keras shape x = Op ''Reshape'' shape [x]"
  "Permute keras dims x = Op ''Permute'' dims [x]"
  "Concatenate keras axis ts = Op ''Concatenate'' [axis] ts"
  by (simp_all add: keras_def)

lemma notebook_graph_outputs:
  assumes n: "1 \<le> n"
  shows "\<exists>outputs.
           complete_model keras (notebook keras n b s t) (inputs keras (notebook keras n b s t))
             = Inr outputs \<and>
           length outputs = nat n \<and>
           outputs ! 0 = unet2 keras (In s ''main_input'') \<and>
           (\<forall>k. Suc k < nat n \<longrightarrow>
              outputs ! Suc k =
                unet2 keras
                  (if b then
                     Op ''Reshape'' s
                       [Op ''Concatenate'' [- 1]
                          [Op ''Reshape'' (butlast s @ [2, - 1]) [outputs ! k],
                           Op ''Permute'' [2, 3, 4, 1, 5]
                             [In t (''solar_'' @ format_d (int k + 1))]]]
                   else outputs ! k))"
proof -
  let ?P = "notebook keras n b s t"
  let ?x = "inputs keras ?P"
  have g: "globals ?P (cnn_model_name ?P) = Some (unet2 keras)" by simp
  from complete_model_total [OF g inputs_accepted, of keras keras]
  obtain outputs where r: "complete_model keras ?P ?x = Inr outputs"
    and len: "length outputs = nat (max 1 n)"
    and first: "outputs ! 0 = unet2 keras (first_input ?x)"
    and st: "\<forall>step. 1 \<le> step \<and> step < n \<longrightarrow>
              (\<exists>xo. next_input keras ?P ?x step (outputs ! nat (step - 1)) = Inr xo \<and>
                    outputs ! nat step = unet2 keras xo)"
    by auto
  have ib: "in_bounds ?P ?x (n - 1)"
    using accepted_in_bounds [OF inputs_accepted, of ?P keras] by simp
  have "outputs ! Suc k =
          unet2 keras
            (if b then
               Op ''Reshape'' s
                 [Op ''Concatenate'' [- 1]
                    [Op ''Reshape'' (butlast s @ [2, - 1]) [outputs ! k],
                     Op ''Permute'' [2, 3, 4, 1, 5] [In t (''solar_'' @ format_d (int k + 1))]]]
             else outputs ! k)"
    if k: "Suc k < nat n" for k
  proof -
    define step where "step = int k + 1"
    have k1: "nat (step - 1) = k" and k2: "nat step = Suc k" by (simp_all add: step_def)
    from k have s: "1 \<le> step \<and> step < n" by (auto simp add: step_def)
    from st s obtain xo
      where xo: "next_input keras ?P ?x step (outputs ! nat (step - 1)) = Inr xo"
        and o: "outputs ! nat step = unet2 keras xo"
      by blast
    have b0: "0 \<le> step" and b1: "step \<le> n - 1" using s by auto
    have xo_eq: "xo = (if b then
               Op ''Reshape'' s
                 [Op ''Concatenate'' [- 1]
                    [Op ''Reshape'' (butlast s @ [2, - 1]) [outputs ! k],
                     Op ''Permute'' [2, 3, 4, 1, 5] [In t (''solar_'' @ format_d step)]]]
             else outputs ! k)"
    proof (cases b)
      case True
      then have sol: "input_solar ?P" using s by (simp add: input_solar_def)
      then have x: "?x = Sequence (main_input keras ?P # solar_inputs keras ?P)"
        by (simp add: inputs_def Let_def)
      have nth: "(main_input keras ?P # solar_inputs keras ?P) ! nat step
              = In t (''solar_'' @ format_d step)"
        using nth_solar_inputs [of step ?P keras] s by simp
      have "xo = Reshape keras s
                (Concatenate keras (- 1)
                   [Reshape keras (butlast s @ [2, - 1]) (outputs ! k),
                    Permute keras [2, 3, 4, 1, 5]
                      ((main_input keras ?P # solar_inputs keras ?P) ! nat step)])"
        using next_input_explicit [OF ib b0 b1, of keras "outputs ! nat (step - 1)"] xo x sol
        by (simp add: k1)
      then have "xo = Op ''Reshape'' s
                 [Op ''Concatenate'' [- 1]
                    [Op ''Reshape'' (butlast s @ [2, - 1]) [outputs ! k],
                     Op ''Permute'' [2, 3, 4, 1, 5] [In t (''solar_'' @ format_d step)]]]"
        unfolding nth keras_layers_of_loop .
      with True show ?thesis by simp
    next
      case False
      then have "\<not> input_solar ?P" by (simp add: input_solar_def)
      then have "?x = Tensor (main_input keras ?P)" by (simp add: inputs_def)
      with next_input_explicit [OF ib b0 b1, of keras "outputs ! nat (step - 1)"] xo False
      show ?thesis by (simp add: k1)
    qed
    from o have "outputs ! Suc k = unet2 keras xo" by (simp only: k2)
    then show ?thesis by (simp only: xo_eq step_def)
  qed
  moreover have "length outputs = nat n" using len n by simp
  moreover have "outputs ! 0 = unet2 keras (In s ''main_input'')"
    using first by (simp add: first_input_inputs main_input_def)
  ultimately show ?thesis using r by blast
qed

lemma format_d_1: "format_d 1 = ''1''"
  by (simp add: format_d_def digit_char_def)

lemma format_d_2: "format_d 2 = ''2''"
  by (simp add: format_d_def digit_char_def)

subsection \<open>Cells and their calls\<close>


lemma run_cell_log:
  "run_cell world calls s = Inr s' \<Longrightarrow> snd s' = snd s @ calls"
  by (induction calls arbitrary: s) (auto split: sum.splits)

lemma run_all_log:
  "run_all world cells s = Inr s' \<Longrightarrow> snd s' = snd s @ concat cells"
  by (induction cells arbitrary: s) (auto split: sum.splits dest: run_cell_log)


lemma run_cell_quiet: "run_cell quiet calls (w, log) = Inr (w, log @ calls)"
  by (induction calls arbitrary: log) (simp_all add: quiet_def)

lemma run_all_quiet: "run_all quiet cells (w, log) = Inr (w, log @ concat cells)"
  by (induction cells arbitrary: log) (simp_all add: run_cell_quiet)





lemma writes_files_io: "writes_files c \<Longrightarrow> io c"
  by (cases c) simp_all

lemma filter_writes_files: "filter writes_files calls = filter writes_files (filter io calls)"
  by (induction calls) (auto dest: writes_files_io)

lemma is_print_io: "is_print c \<Longrightarrow> io c"
  by (cases c) simp_all

lemma filter_is_print: "filter is_print calls = filter is_print (filter io calls)"
  by (induction calls) (auto dest: is_print_io)

lemma io_downloading_notebook:
  "filter io (concat downloading_notebook) =
     [OsChdir ''..'', OsMakedirs ''/home/disk/wave2/jweyn/Data/ERA5'' True,
      Print [Value], Print [Value],
      ToNetcdf ''/home/disk/wave2/jweyn/Data/ERA5/tutorial_z500_t2m.nc.nocoord'']"
  by (simp add: downloading_notebook_def os_pardir_def data_directory_def processed_file_def)

lemma io_training_notebook:
  "filter io (concat (training_notebook P)) =
     [OsChdir ''..'', OpenDataset ''/home/disk/wave2/jweyn/Data/ERA5/tutorial_z500_t2m_CS.nc'',
      Print [Text ''Loading data to memory...''],
      Print [Text ''Loading validation data to memory...''],
      Print [Value],
      Print [Text ''Wrote model /home/disk/wave2/jweyn/Data/dlwp-cs_tutorial''],
      Print [Value],
      Print [Text ''Validation loss:'', Value],
      Print [Text ''Other scores:'', Value]]"
  by (simp add: training_notebook_def os_pardir_def predictor_file_def model_file_def
      root_directory_def os_path_join_def filter_map comp_def)

section \<open>The claims\<close>

subsection \<open>C1: the functions that the training notebook defines\<close>

text \<open>
  C1 says that the repository implements no algorithmic component and that no function
  defined in the notebooks computes anything of its own.  The training notebook defines
  two such functions, so the claim is amended to what they compute.

  C1, as amended.  \<^verbatim>\<open>unet2\<close> is a fixed sequence of thirty-seven applications of external
  layers (padding, convolution, activation, pooling, up-sampling and concatenation), in
  the order given below, and \<^verbatim>\<open>complete_model\<close> is an iteration: when the model function
  named by \<^verbatim>\<open>cnn_model_name\<close> is bound, and the input is a single tensor or an accepted
  sequence with \<^verbatim>\<open>input_solar\<close> false, output \<open>k\<close> is the model function applied \<open>k + 1\<close>
  times to the first input, for \<open>k\<close> from 0 to \<^verbatim>\<open>max(1, integration_steps) - 1\<close>.  Only the
  layers themselves are defined in external packages.
\<close>

theorem notebook_functions_compute:
  "spine (unet2 keras x) = spine x @
     [''cube_padding_1'', ''conv_2d_1'', ''relu'', ''cube_padding_1'', ''conv_2d_1_2'', ''relu'',
      ''pooling_2'',
      ''cube_padding_1'', ''conv_2d_2'', ''relu'', ''cube_padding_1'', ''conv_2d_2_2'', ''relu'',
      ''pooling_2'',
      ''cube_padding_1'', ''conv_2d_5_2'', ''relu'', ''cube_padding_1'', ''conv_2d_5'', ''relu'',
      ''up_sampling_2'', ''concatenate'',
      ''cube_padding_1'', ''conv_2d_6_2'', ''relu'', ''cube_padding_1'', ''conv_2d_6'', ''relu'',
      ''up_sampling_2'', ''concatenate'',
      ''cube_padding_1'', ''conv_2d_7'', ''relu'', ''cube_padding_1'', ''conv_2d_7_2'', ''relu'',
      ''conv_2d_8''] \<and>
   (globals P (cnn_model_name P) = Some model_function \<and> accepted P x_in \<and>
    (is_seq x_in \<longrightarrow> \<not> input_solar P) \<longrightarrow>
      complete_model L P x_in =
        Inr (map (\<lambda>k. (model_function ^^ Suc k) (first_input x_in))
               [0..<nat (max 1 (integration_steps P))]))"
proof (intro conjI impI)
  show "spine (unet2 keras x) = spine x @
     [''cube_padding_1'', ''conv_2d_1'', ''relu'', ''cube_padding_1'', ''conv_2d_1_2'', ''relu'',
      ''pooling_2'',
      ''cube_padding_1'', ''conv_2d_2'', ''relu'', ''cube_padding_1'', ''conv_2d_2_2'', ''relu'',
      ''pooling_2'',
      ''cube_padding_1'', ''conv_2d_5_2'', ''relu'', ''cube_padding_1'', ''conv_2d_5'', ''relu'',
      ''up_sampling_2'', ''concatenate'',
      ''cube_padding_1'', ''conv_2d_6_2'', ''relu'', ''cube_padding_1'', ''conv_2d_6'', ''relu'',
      ''up_sampling_2'', ''concatenate'',
      ''cube_padding_1'', ''conv_2d_7'', ''relu'', ''cube_padding_1'', ''conv_2d_7_2'', ''relu'',
      ''conv_2d_8'']"
    by (simp add: unet2_def keras_def layer_def Let_def)
next
  assume "globals P (cnn_model_name P) = Some model_function \<and> accepted P x_in \<and>
    (is_seq x_in \<longrightarrow> \<not> input_solar P)"
  then show "complete_model L P x_in =
        Inr (map (\<lambda>k. (model_function ^^ Suc k) (first_input x_in))
               [0..<nat (max 1 (integration_steps P))])"
    using complete_model_iterates [of P model_function x_in L] by blast
qed

text \<open>
  At the main input of the notebook, the graph of \<^verbatim>\<open>unet2\<close> has the thirty-seven layer
  applications on its spine, and with three integration steps and a single tensor
  \<^verbatim>\<open>complete_model\<close> returns the first three iterates of \<^verbatim>\<open>unet2\<close>.
\<close>

theorem notebook_functions_compute_witness:
  "length (spine (unet2 keras main_in)) = 37 \<and>
   complete_model keras (tutorial 3 True) (Tensor main_in) =
     Inr [unet2 keras main_in,
          unet2 keras (unet2 keras main_in),
          unet2 keras (unet2 keras (unet2 keras main_in))]"
proof -
  let ?P = "tutorial 3 True"
  let ?x = "Tensor main_in"
  have "globals ?P (cnn_model_name ?P) = Some (unet2 keras) \<and> accepted ?P ?x \<and>
        (is_seq ?x \<longrightarrow> \<not> input_solar ?P)"
    by simp
  with notebook_functions_compute [of main_in ?P "unet2 keras" ?x keras]
  show ?thesis by (simp add: numeral_3_eq_3 upt_rec)
qed

text \<open>
  C1 as the spec states it fails on the code.  If the notebooks only handed their
  arguments to external functions, \<^verbatim>\<open>unet2(x)\<close> would be one external layer applied to \<open>x\<close>
  and \<^verbatim>\<open>complete_model\<close> would return what one call returns.  On the main input, the result
  of \<^verbatim>\<open>unet2\<close> lies thirty-seven layer applications below that input, and with three
  integration steps and a single tensor \<^verbatim>\<open>complete_model\<close> returns three tensors, each the
  model function applied to the one before, at 37, 74 and 111 layer applications below
  the input.
\<close>

theorem no_algorithm_counterexample:
  "depth (unet2 keras main_in) = 37 \<and>
   complete_model keras (tutorial 3 False) (Tensor main_in) =
     Inr [unet2 keras main_in,
          unet2 keras (unet2 keras main_in),
          unet2 keras (unet2 keras (unet2 keras main_in))] \<and>
   map depth
     [unet2 keras main_in,
      unet2 keras (unet2 keras main_in),
      unet2 keras (unet2 keras (unet2 keras main_in))] = [37, 74, 111]"
proof -
  have "complete_model keras (tutorial 3 False) (Tensor main_in) =
          Inr [unet2 keras main_in,
               unet2 keras (unet2 keras main_in),
               unet2 keras (unet2 keras (unet2 keras main_in))]"
    by (simp add: complete_model_def py_range_def upto_rec1 getitem_def)
  then show ?thesis by (simp add: depth_unet2)
qed

subsection \<open>C2: the outputs of the sequence model\<close>

text \<open>
  C2 claims its conclusion for every input.  \<^verbatim>\<open>complete_model\<close> subscripts a sequence at 0
  and, when \<^verbatim>\<open>input_solar\<close> holds, at every step, so it raises \<^verbatim>\<open>IndexError\<close> on the inputs
  that are not accepted; the claim is amended to the accepted ones.

  C2, as amended.  For every \<^verbatim>\<open>integration_steps\<close> \<open>\<ge> 1\<close>, with the model function named by
  \<^verbatim>\<open>cnn_model_name\<close> bound in the globals: on a single tensor, or on a sequence that is not
  empty and, when \<^verbatim>\<open>input_solar\<close> holds, has at least \<^verbatim>\<open>integration_steps\<close> elements,
  \<^verbatim>\<open>complete_model\<close> returns a list of exactly \<^verbatim>\<open>integration_steps\<close> outputs; the first is
  the model function applied to the first input, and the one at every position
  \<open>step \<ge> 1\<close> is the model function applied to the previous output, after that output
  has been reshaped, concatenated with the permuted insolation input \<^verbatim>\<open>x_in[step]\<close> and
  reshaped to \<^verbatim>\<open>cs\<close> when the input is a sequence and \<^verbatim>\<open>input_solar\<close> holds.  On every other
  input it raises \<^verbatim>\<open>IndexError\<close>.
\<close>

theorem complete_model_outputs:
  assumes "1 \<le> integration_steps P"
    and "globals P (cnn_model_name P) = Some model_function"
  shows "(accepted P x_in \<longrightarrow>
           (\<exists>outputs. complete_model L P x_in = Inr outputs \<and>
              length outputs = nat (integration_steps P) \<and>
              outputs ! 0 = model_function (first_input x_in) \<and>
              (\<forall>step. 1 \<le> step \<and> step < integration_steps P \<longrightarrow>
                 outputs ! nat step =
                   model_function
                     (case x_in of
                        Tensor x \<Rightarrow> outputs ! nat (step - 1)
                      | Sequence xs \<Rightarrow>
                          if input_solar P then
                            Reshape L (cs P)
                              (Concatenate L (- 1)
                                 [Reshape L (butlast (cs P) @ [io_time_steps P, - 1])
                                    (outputs ! nat (step - 1)),
                                  Permute L [2, 3, 4, 1, 5] (xs ! nat step)])
                          else outputs ! nat (step - 1))))) \<and>
         (\<not> accepted P x_in \<longrightarrow> complete_model L P x_in = Inl IndexError)"
proof (intro conjI impI)
  assume acc: "accepted P x_in"
  from complete_model_total [OF assms(2) acc, of L]
  obtain outputs where r: "complete_model L P x_in = Inr outputs"
    and len: "length outputs = nat (max 1 (integration_steps P))"
    and first: "outputs ! 0 = model_function (first_input x_in)"
    and st: "\<forall>step. 1 \<le> step \<and> step < integration_steps P \<longrightarrow>
              (\<exists>xo. next_input L P x_in step (outputs ! nat (step - 1)) = Inr xo \<and>
                    outputs ! nat step = model_function xo)"
    by blast
  have ib: "in_bounds P x_in (integration_steps P - 1)"
    by (rule accepted_in_bounds [OF acc])
  have "outputs ! nat step =
          model_function
            (case x_in of
               Tensor x \<Rightarrow> outputs ! nat (step - 1)
             | Sequence xs \<Rightarrow>
                 if input_solar P then
                   Reshape L (cs P)
                     (Concatenate L (- 1)
                        [Reshape L (butlast (cs P) @ [io_time_steps P, - 1])
                           (outputs ! nat (step - 1)),
                         Permute L [2, 3, 4, 1, 5] (xs ! nat step)])
                 else outputs ! nat (step - 1))"
    if s: "1 \<le> step \<and> step < integration_steps P" for step
  proof -
    from st s obtain xo
      where xo: "next_input L P x_in step (outputs ! nat (step - 1)) = Inr xo"
        and o: "outputs ! nat step = model_function xo"
      by blast
    have "0 \<le> step" and "step \<le> integration_steps P - 1" using s by auto
    from next_input_explicit [OF ib this, of L "outputs ! nat (step - 1)"] xo o
    show ?thesis by simp
  qed
  moreover have "length outputs = nat (integration_steps P)"
    using len assms(1) by simp
  ultimately show "\<exists>outputs. complete_model L P x_in = Inr outputs \<and>
              length outputs = nat (integration_steps P) \<and>
              outputs ! 0 = model_function (first_input x_in) \<and>
              (\<forall>step. 1 \<le> step \<and> step < integration_steps P \<longrightarrow>
                 outputs ! nat step =
                   model_function
                     (case x_in of
                        Tensor x \<Rightarrow> outputs ! nat (step - 1)
                      | Sequence xs \<Rightarrow>
                          if input_solar P then
                            Reshape L (cs P)
                              (Concatenate L (- 1)
                                 [Reshape L (butlast (cs P) @ [io_time_steps P, - 1])
                                    (outputs ! nat (step - 1)),
                                  Permute L [2, 3, 4, 1, 5] (xs ! nat step)])
                          else outputs ! nat (step - 1)))"
    using r first by blast
next
  assume "\<not> accepted P x_in"
  then show "complete_model L P x_in = Inl IndexError"
    by (rule complete_model_IndexError [OF assms(2)])
qed

text \<open>
  With the parameters of the notebook (two integration steps, insolation added) and its
  two inputs, the outputs are the U-Net of the main input and the U-Net of that output
  joined with the insolation of step 1; on the empty list the same call raises.
\<close>

theorem complete_model_outputs_witness:
  "\<exists>u1 u2. complete_model keras (tutorial 2 True) (Sequence [main_in, solar_in]) = Inr [u1, u2] \<and>
      u1 = unet2 keras main_in \<and>
      u2 = unet2 keras
             (Reshape keras cs_example
                (Concatenate keras (- 1)
                   [Reshape keras [6, 48, 48, 2, - 1] u1,
                    Permute keras [2, 3, 4, 1, 5] solar_in])) \<and>
      complete_model keras (tutorial 2 True) (Sequence []) = Inl IndexError"
proof -
  let ?P = "tutorial 2 True"
  let ?x = "Sequence [main_in, solar_in]"
  have n: "1 \<le> integration_steps ?P" by simp
  have g: "globals ?P (cnn_model_name ?P) = Some (unet2 keras)" by simp
  have a: "accepted ?P ?x" by (simp add: input_solar_def)
  have b: "\<not> accepted ?P (Sequence [])" by simp
  from complete_model_outputs [OF n g, of ?x keras] a
  obtain outputs where r: "complete_model keras ?P ?x = Inr outputs"
    and len: "length outputs = 2"
    and first: "outputs ! 0 = unet2 keras main_in"
    and st: "\<forall>step. 1 \<le> step \<and> step < 2 \<longrightarrow>
                 outputs ! nat step =
                   unet2 keras
                            (Reshape keras cs_example
                              (Concatenate keras (- 1)
                                 [Reshape keras (butlast cs_example @ [2, - 1])
                                    (outputs ! nat (step - 1)),
                                  Permute keras [2, 3, 4, 1, 5] ([main_in, solar_in] ! nat step)]))"
    by (auto simp add: input_solar_def)
  from st have second: "outputs ! 1 = unet2 keras
                            (Reshape keras cs_example
                              (Concatenate keras (- 1)
                                 [Reshape keras (butlast cs_example @ [2, - 1])
                                    (outputs ! 0),
                                  Permute keras [2, 3, 4, 1, 5] solar_in]))"
    by (drule_tac x = 1 in spec) simp
  from len obtain u1 u2 where o: "outputs = [u1, u2]"
    by (cases outputs; cases "tl outputs") auto
  have "complete_model keras ?P (Sequence []) = Inl IndexError"
    using complete_model_outputs [OF n g, of "Sequence []" keras] b by blast
  with r o first second show ?thesis by (simp add: cs_example_def)
qed

text \<open>
  C2 as stated fails: with the parameters of the notebook, \<^verbatim>\<open>complete_model([])\<close> raises
  \<^verbatim>\<open>IndexError\<close> at \<^verbatim>\<open>x_in[0]\<close>, and \<^verbatim>\<open>complete_model([main_input])\<close> raises it at \<^verbatim>\<open>x_in[1]\<close>
  in the first pass of the loop.
\<close>

theorem complete_model_every_input_counterexample:
  "complete_model keras (tutorial 2 True) (Sequence []) = Inl IndexError \<and>
   complete_model keras (tutorial 2 True) (Sequence [main_in]) = Inl IndexError"
  by (simp add: complete_model_def getitem_def py_range_def upto_rec1 input_solar_def Let_def)

subsection \<open>C3: control flow and data flow of the training notebook\<close>

text \<open>
  C3 says that the source defines no control flow and no data-flow graph of its own.
  \<^verbatim>\<open>complete_model\<close> has a loop with a conditional in it and \<^verbatim>\<open>unet2\<close> builds a graph with
  skip connections, so the claim is amended to what the two functions do.

  C3, as amended.  The training notebook defines control flow and data flow of its own.
  In the graph of the model that the notebook builds for \<open>n \<ge> 1\<close> integration steps,
  the loop of \<^verbatim>\<open>complete_model\<close> produces one output for every step.  The first output is
  \<^verbatim>\<open>unet2\<close> of the main input.  Every further output is \<^verbatim>\<open>unet2\<close> of the output before it;
  through the conditional, and only when \<^verbatim>\<open>add_solar\<close> is set, that output is first
  reshaped to \<^verbatim>\<open>cs[:-1] + (io_time_steps, -1)\<close>, concatenated on the last axis with the
  permuted insolation input of the step, \<^verbatim>\<open>solar_1\<close> for the second output, \<^verbatim>\<open>solar_2\<close> for
  the third and so on, and reshaped to \<^verbatim>\<open>cs\<close>.  So output \<open>k\<close> lies \<open>37 * (k + 1)\<close> layer
  applications below the inputs, and \<open>3 * k\<close> more when \<^verbatim>\<open>add_solar\<close> is set.  On a single
  tensor instead of the list of inputs the branch is not taken, whatever \<^verbatim>\<open>add_solar\<close> is:
  the outputs are \<^verbatim>\<open>unet2\<close> applied once, twice and so on to that tensor.

  \<^verbatim>\<open>unet2\<close> is a graph with two skip connections.  The tensor \<open>x0\<close> after the first six
  layers and the tensor \<open>x1\<close> after the next seven are each used twice: \<open>x1\<close> goes on into
  the eight layers that end with the first up-sampling and is the second argument of
  the first concatenation, and \<open>x0\<close> is the second argument of the second concatenation.
  Every input of the argument of \<^verbatim>\<open>unet2\<close> therefore reaches the result along three
  paths.
\<close>

theorem notebook_control_and_data_flow:
  assumes "1 \<le> n"
  shows "(\<exists>outputs.
           complete_model keras (notebook keras n b s t) (inputs keras (notebook keras n b s t))
             = Inr outputs \<and>
           length outputs = nat n \<and>
           outputs ! 0 = unet2 keras (In s ''main_input'') \<and>
           (\<forall>k. Suc k < nat n \<longrightarrow>
              outputs ! Suc k =
                unet2 keras
                  (if b then
                     Op ''Reshape'' s
                       [Op ''Concatenate'' [- 1]
                          [Op ''Reshape'' (butlast s @ [2, - 1]) [outputs ! k],
                           Op ''Permute'' [2, 3, 4, 1, 5]
                             [In t (''solar_'' @ format_d (int k + 1))]]]
                   else outputs ! k)) \<and>
           (\<forall>k. k < nat n \<longrightarrow> depth (outputs ! k) = 37 * (k + 1) + (if b then 3 * k else 0))) \<and>
         complete_model keras (notebook keras n b s t) (Tensor x) =
           Inr (map (\<lambda>k. (unet2 keras ^^ Suc k) x) [0..<nat n]) \<and>
         unet2 keras x =
           (let x0 = chain [''cube_padding_1'', ''conv_2d_1'', ''relu'',
                            ''cube_padding_1'', ''conv_2d_1_2'', ''relu''] x;
                x1 = chain [''pooling_2'', ''cube_padding_1'', ''conv_2d_2'', ''relu'',
                            ''cube_padding_1'', ''conv_2d_2_2'', ''relu''] x0;
                x2 = chain [''pooling_2'', ''cube_padding_1'', ''conv_2d_5_2'', ''relu'',
                            ''cube_padding_1'', ''conv_2d_5'', ''relu'', ''up_sampling_2''] x1;
                x3 = chain [''cube_padding_1'', ''conv_2d_6_2'', ''relu'',
                            ''cube_padding_1'', ''conv_2d_6'', ''relu'', ''up_sampling_2'']
                       (Op ''concatenate'' [- 1] [x2, x1])
            in chain [''cube_padding_1'', ''conv_2d_7'', ''relu'',
                      ''cube_padding_1'', ''conv_2d_7_2'', ''relu'', ''conv_2d_8'']
                 (Op ''concatenate'' [- 1] [x3, x0])) \<and>
         leaves (unet2 keras x) = leaves x @ leaves x @ leaves x"
proof -
  let ?r = "complete_model keras (notebook keras n b s t) (inputs keras (notebook keras n b s t))"
  from notebook_graph_outputs [OF assms, of b s t]
  obtain outputs where r: "?r = Inr outputs"
    and len: "length outputs = nat n"
    and first: "outputs ! 0 = unet2 keras (In s ''main_input'')"
    and rec: "\<forall>k. Suc k < nat n \<longrightarrow>
              outputs ! Suc k =
                unet2 keras
                  (if b then
                     Op ''Reshape'' s
                       [Op ''Concatenate'' [- 1]
                          [Op ''Reshape'' (butlast s @ [2, - 1]) [outputs ! k],
                           Op ''Permute'' [2, 3, 4, 1, 5]
                             [In t (''solar_'' @ format_d (int k + 1))]]]
                   else outputs ! k)"
    by blast
  from notebook_graph_depth [OF assms, of b s t] r
  have d: "\<forall>k. k < nat n \<longrightarrow> depth (outputs ! k) = 37 * (k + 1) + (if b then 3 * k else 0)"
    by auto
  let ?P = "notebook keras n b s t"
  have "globals ?P (cnn_model_name ?P) = Some (unet2 keras)" by simp
  from complete_model_iterates [OF this, of "Tensor x" keras] assms
  have single: "complete_model keras ?P (Tensor x) =
                  Inr (map (\<lambda>k. (unet2 keras ^^ Suc k) x) [0..<nat n])"
    by simp
  from r len first rec d single unet2_graph [of x] leaves_unet2 [of x]
  show ?thesis by blast
qed

text \<open>
  With the parameters of the notebook (two integration steps, insolation added) there are
  two outputs: \<^verbatim>\<open>unet2\<close> of the main input, and \<^verbatim>\<open>unet2\<close> of that output joined with the
  insolation input \<^verbatim>\<open>solar_1\<close>.  They lie 37 and 77 layer applications below the inputs.
  On the main input alone the second output is \<^verbatim>\<open>unet2\<close> of the first, and the main input
  reaches the result of \<^verbatim>\<open>unet2\<close> three times.
\<close>

theorem notebook_control_and_data_flow_witness:
  "\<exists>u1 u2.
     complete_model keras (tutorial 2 True) (Sequence [main_in, solar_in]) = Inr [u1, u2] \<and>
     u1 = unet2 keras main_in \<and>
     u2 = unet2 keras
            (Op ''Reshape'' cs_example
               [Op ''Concatenate'' [- 1]
                  [Op ''Reshape'' [6, 48, 48, 2, - 1] [u1],
                   Op ''Permute'' [2, 3, 4, 1, 5] [solar_in]]]) \<and>
     depth u1 = 37 \<and> depth u2 = 77 \<and>
     complete_model keras (tutorial 2 True) (Tensor main_in) =
       Inr [unet2 keras main_in, unet2 keras (unet2 keras main_in)] \<and>
     leaves (unet2 keras main_in) = [main_in, main_in, main_in]"
proof -
  let ?P = "tutorial 2 True"
  have n: "(1::int) \<le> 2" by simp
  have i: "inputs keras ?P = Sequence [main_in, solar_in]"
    by (simp add: inputs_def input_solar_def main_input_def solar_inputs_def py_range_def
        upto_rec1 format_d_1 Let_def)
  from notebook_control_and_data_flow [OF n, of True cs_example insolation_example main_in]
  obtain outputs where r: "complete_model keras ?P (inputs keras ?P) = Inr outputs"
    and len: "length outputs = 2"
    and first: "outputs ! 0 = unet2 keras main_in"
    and rec: "\<forall>k. Suc k < 2 \<longrightarrow>
              outputs ! Suc k =
                unet2 keras
                  (Op ''Reshape'' cs_example
                     [Op ''Concatenate'' [- 1]
                        [Op ''Reshape'' (butlast cs_example @ [2, - 1]) [outputs ! k],
                         Op ''Permute'' [2, 3, 4, 1, 5]
                           [In insolation_example (''solar_'' @ format_d (int k + 1))]]])"
    and d: "\<forall>k. k < 2 \<longrightarrow> depth (outputs ! k) = 37 * (k + 1) + 3 * k"
    and single: "complete_model keras ?P (Tensor main_in) =
                   Inr (map (\<lambda>k. (unet2 keras ^^ Suc k) main_in) [0..<2])"
    and l: "leaves (unet2 keras main_in) = [main_in, main_in, main_in]"
    by auto
  have single': "complete_model keras ?P (Tensor main_in) =
                   Inr [unet2 keras main_in, unet2 keras (unet2 keras main_in)]"
    unfolding single by (simp add: numeral_2_eq_2)
  from len obtain u1 u2 where o: "outputs = [u1, u2]"
    by (cases outputs; cases "tl outputs") auto
  from rec have second: "outputs ! 1 =
                unet2 keras
                  (Op ''Reshape'' cs_example
                     [Op ''Concatenate'' [- 1]
                        [Op ''Reshape'' [6, 48, 48, 2, - 1] [outputs ! 0],
                         Op ''Permute'' [2, 3, 4, 1, 5] [solar_in]]])"
    by (drule_tac x = 0 in spec) (simp add: format_d_1 cs_example_def)
  from d have "depth (outputs ! 0) = 37" and "depth (outputs ! 1) = 77" by auto
  with o r l i first second single' show ?thesis by simp
qed

text \<open>
  C3 as stated fails.  On the same list of two inputs and with two integration steps, the
  second output of \<^verbatim>\<open>complete_model\<close> depends on \<^verbatim>\<open>add_solar\<close>: a branch.  It is computed from
  the first output: a loop that feeds back.  And the main input reaches the result of
  \<^verbatim>\<open>unet2\<close> along three paths: a graph, not a chain of calls.
\<close>

theorem no_control_flow_counterexample:
  "complete_model keras (tutorial 2 True) (Sequence [main_in, solar_in]) =
     Inr [unet2 keras main_in,
          unet2 keras
            (Op ''Reshape'' cs_example
               [Op ''Concatenate'' [- 1]
                  [Op ''Reshape'' [6, 48, 48, 2, - 1] [unet2 keras main_in],
                   Op ''Permute'' [2, 3, 4, 1, 5] [solar_in]]])] \<and>
   complete_model keras (tutorial 2 False) (Sequence [main_in, solar_in]) =
     Inr [unet2 keras main_in, unet2 keras (unet2 keras main_in)] \<and>
   unet2 keras
     (Op ''Reshape'' cs_example
        [Op ''Concatenate'' [- 1]
           [Op ''Reshape'' [6, 48, 48, 2, - 1] [unet2 keras main_in],
            Op ''Permute'' [2, 3, 4, 1, 5] [solar_in]]])
     \<noteq> unet2 keras (unet2 keras main_in) \<and>
   leaves (unet2 keras main_in) = [main_in, main_in, main_in]"
proof -
  let ?u1 = "unet2 keras main_in"
  let ?fed = "Op ''Reshape'' cs_example
                [Op ''Concatenate'' [- 1]
                   [Op ''Reshape'' [6, 48, 48, 2, - 1] [?u1],
                    Op ''Permute'' [2, 3, 4, 1, 5] [solar_in]]]"
  have a: "complete_model keras (tutorial 2 True) (Sequence [main_in, solar_in]) =
             Inr [?u1, unet2 keras ?fed]"
    by (simp add: complete_model_def py_range_def upto_rec1 getitem_def input_solar_def Let_def)
       (simp add: keras_def cs_example_def)
  have b: "complete_model keras (tutorial 2 False) (Sequence [main_in, solar_in]) =
             Inr [?u1, unet2 keras ?u1]"
    by (simp add: complete_model_def py_range_def upto_rec1 getitem_def input_solar_def Let_def)
  have "depth (unet2 keras ?fed) \<noteq> depth (unet2 keras ?u1)"
    by (simp add: depth_unet2)
  then have c: "unet2 keras ?fed \<noteq> unet2 keras ?u1" by auto
  have d: "leaves (unet2 keras main_in) = [main_in, main_in, main_in]"
    by (simp add: leaves_unet2)
  from a b c d show ?thesis by (simp only: simp_thms)
qed

subsection \<open>C4: the invariant of the sequence model\<close>

text \<open>
  C4 says that the repository introduces no invariant.  The loop of \<^verbatim>\<open>complete_model\<close>
  maintains one, so the claim is amended to it.

  C4, as amended.  The repository's own code maintains an invariant: every pass of the
  loop of \<^verbatim>\<open>complete_model\<close> appends one output and leaves the earlier outputs as they
  are, so that whenever \<^verbatim>\<open>complete_model\<close> returns, its list has
  \<^verbatim>\<open>max(1, integration_steps)\<close> elements, which is \<^verbatim>\<open>integration_steps\<close> for every
  \<^verbatim>\<open>integration_steps\<close> \<open>\<ge> 1\<close>.
\<close>

theorem complete_model_length_invariant:
  "(complete_loop L P f x_in outs steps = Inr r \<longrightarrow>
      length r = length outs + length steps \<and> take (length outs) r = outs) \<and>
   (complete_model L P x_in = Inr outputs \<longrightarrow>
      length outputs = nat (max 1 (integration_steps P)))"
  using complete_loop_length [of L P f x_in outs steps r]
    complete_loop_prefix [of L P f x_in outs steps r]
    complete_model_length [of L P x_in outputs]
  by blast

text \<open>On the two inputs of the notebook the call returns, and the list has two elements.\<close>

theorem complete_model_length_invariant_witness:
  "\<exists>outputs.
     complete_model keras (tutorial 2 True) (Sequence [main_in, solar_in]) = Inr outputs \<and>
     length outputs = 2"
proof -
  let ?P = "tutorial 2 True"
  let ?x = "Sequence [main_in, solar_in]"
  have "globals ?P (cnn_model_name ?P) = Some (unet2 keras)" by simp
  moreover have "accepted ?P ?x" by (simp add: input_solar_def)
  ultimately obtain outputs where r: "complete_model keras ?P ?x = Inr outputs"
    using complete_model_total [of ?P "unet2 keras" ?x keras] by blast
  with complete_model_length_invariant [of keras ?P "unet2 keras" ?x "[]" "[]" "[]" outputs]
  have "length outputs = 2" by simp
  with r show ?thesis by blast
qed

text \<open>
  C4 as stated fails: with the parameters of the notebook there is no input at all on
  which \<^verbatim>\<open>complete_model\<close> returns a list whose length is not 2, the number of integration
  steps.
\<close>

theorem no_invariant_counterexample:
  "\<not> (\<exists>x_in outputs.
        complete_model keras (tutorial 2 True) x_in = Inr outputs \<and>
        length outputs \<noteq> 2)"
  using complete_model_length [of keras "tutorial 2 True"] by auto

subsection \<open>C5: exceptions\<close>



subsection \<open>C6: effects at the system boundary\<close>

text \<open>
  C6 says that notebook code uses no output channel of its own besides the two files it
  writes.  It calls \<^verbatim>\<open>print\<close>, so the claim is amended by standard output.

  C6, as amended.  Besides passing parameters into external library calls, the only
  writes to the file system that notebook code performs itself are the creation of the
  data directory with \<^verbatim>\<open>os.makedirs\<close> and the coordinate-stripped NetCDF copy at
  \<^verbatim>\<open>processed_file + '.nocoord'\<close>, both in the download notebook; the training notebook
  writes no file itself.  The one other output channel that notebook code uses directly
  is standard output: \<^verbatim>\<open>print\<close> is called twice in the download notebook and seven times
  in the training notebook.  Its remaining calls of its own are \<^verbatim>\<open>os.chdir(os.pardir)\<close> in
  both notebooks and \<^verbatim>\<open>xr.open_dataset(predictor_file)\<close>, which reads.
\<close>

theorem direct_effects:
  "(run_all world downloading_notebook (w, []) = Inr (w', log) \<longrightarrow>
      filter io log =
        [OsChdir ''..'', OsMakedirs data_directory True, Print [Value], Print [Value],
         ToNetcdf (processed_file @ ''.nocoord'')] \<and>
      filter writes_files log =
        [OsMakedirs data_directory True, ToNetcdf (processed_file @ ''.nocoord'')]) \<and>
   (run_all world (training_notebook P) (w, []) = Inr (w', log) \<longrightarrow>
      filter io log =
        [OsChdir ''..'', OpenDataset predictor_file,
         Print [Text ''Loading data to memory...''],
         Print [Text ''Loading validation data to memory...''],
         Print [Value],
         Print [Text (''Wrote model '' @ model_file)],
         Print [Value],
         Print [Text ''Validation loss:'', Value],
         Print [Text ''Other scores:'', Value]] \<and>
      filter writes_files log = [])"
proof (intro conjI impI)
  assume "run_all world downloading_notebook (w, []) = Inr (w', log)"
  then have log: "log = concat downloading_notebook"
    by (auto dest: run_all_log)
  show "filter io log =
        [OsChdir ''..'', OsMakedirs data_directory True, Print [Value], Print [Value],
         ToNetcdf (processed_file @ ''.nocoord'')]"
    unfolding log io_downloading_notebook by (simp add: data_directory_def processed_file_def)
  show "filter writes_files log =
        [OsMakedirs data_directory True, ToNetcdf (processed_file @ ''.nocoord'')]"
    unfolding log filter_writes_files [of "concat downloading_notebook"] io_downloading_notebook
    by (simp add: data_directory_def processed_file_def)
next
  assume "run_all world (training_notebook P) (w, []) = Inr (w', log)"
  then have log: "log = concat (training_notebook P)"
    by (auto dest: run_all_log)
  show "filter io log =
        [OsChdir ''..'', OpenDataset predictor_file,
         Print [Text ''Loading data to memory...''],
         Print [Text ''Loading validation data to memory...''],
         Print [Value],
         Print [Text (''Wrote model '' @ model_file)],
         Print [Value],
         Print [Text ''Validation loss:'', Value],
         Print [Text ''Other scores:'', Value]]"
    unfolding log io_training_notebook
    by (simp add: predictor_file_def model_file_def root_directory_def os_path_join_def)
  show "filter writes_files log = []"
    unfolding log filter_writes_files [of "concat (training_notebook P)"] io_training_notebook
    by simp
qed

text \<open>
  In the world where every call returns, the download notebook runs to its end and the
  two files are the only writes of its own.
\<close>

theorem direct_effects_witness:
  "\<exists>log. run_all quiet downloading_notebook ((), []) = Inr ((), log) \<and>
         filter writes_files log =
           [OsMakedirs ''/home/disk/wave2/jweyn/Data/ERA5'' True,
            ToNetcdf ''/home/disk/wave2/jweyn/Data/ERA5/tutorial_z500_t2m.nc.nocoord'']"
proof -
  have r: "run_all quiet downloading_notebook ((), []) = Inr ((), concat downloading_notebook)"
    by (simp add: run_all_quiet)
  from direct_effects [of quiet "()" "()" "concat downloading_notebook"] r
  have "filter writes_files (concat downloading_notebook) =
          [OsMakedirs data_directory True, ToNetcdf (processed_file @ ''.nocoord'')]"
    by blast
  with r show ?thesis
    by (simp add: data_directory_def processed_file_def)
qed

text \<open>
  C6 as stated fails: in the world where every call returns, both notebooks write to
  standard output themselves, the download notebook twice and the training notebook
  seven times.  The left-hand sides are the calls of \<^verbatim>\<open>print\<close> in the log of a full run.
\<close>

theorem no_other_output_counterexample:
  "map_sum id (filter is_print \<circ> snd) (run_all quiet downloading_notebook ((), [])) =
     Inr [Print [Value], Print [Value]] \<and>
   map_sum id (filter is_print \<circ> snd) (run_all quiet (training_notebook (tutorial 2 True)) ((), [])) =
     Inr [Print [Text ''Loading data to memory...''],
          Print [Text ''Loading validation data to memory...''],
          Print [Value],
          Print [Text ''Wrote model /home/disk/wave2/jweyn/Data/dlwp-cs_tutorial''],
          Print [Value],
          Print [Text ''Validation loss:'', Value],
          Print [Text ''Other scores:'', Value]]"
proof
  have "filter is_print (concat downloading_notebook) = [Print [Value], Print [Value]]"
    unfolding filter_is_print [of "concat downloading_notebook"] io_downloading_notebook
    by simp
  then show "map_sum id (filter is_print \<circ> snd)
               (run_all quiet downloading_notebook ((), [])) =
             Inr [Print [Value], Print [Value]]"
    by (simp add: run_all_quiet)
next
  let ?P = "tutorial 2 True"
  have "filter is_print (concat (training_notebook ?P)) =
            [Print [Text ''Loading data to memory...''],
             Print [Text ''Loading validation data to memory...''],
             Print [Value],
             Print [Text ''Wrote model /home/disk/wave2/jweyn/Data/dlwp-cs_tutorial''],
             Print [Value],
             Print [Text ''Validation loss:'', Value],
             Print [Text ''Other scores:'', Value]]"
    unfolding filter_is_print [of "concat (training_notebook ?P)"] io_training_notebook
    by simp
  then show "map_sum id (filter is_print \<circ> snd)
               (run_all quiet (training_notebook ?P) ((), [])) =
             Inr [Print [Text ''Loading data to memory...''],
                  Print [Text ''Loading validation data to memory...''],
                  Print [Value],
                  Print [Text ''Wrote model /home/disk/wave2/jweyn/Data/dlwp-cs_tutorial''],
                  Print [Value],
                  Print [Text ''Validation loss:'', Value],
                  Print [Text ''Other scores:'', Value]]"
    by (simp add: run_all_quiet)
qed

subsection \<open>C9: the input names\<close>

text \<open>
  C9.  For every \<^verbatim>\<open>integration_steps\<close> \<open>n \<ge> 1\<close> the list \<^verbatim>\<open>input_names\<close> has exactly \<open>n\<close>
  elements: \<^verbatim>\<open>'main_input'\<close> at position 0 and \<^verbatim>\<open>'solar_<i>'\<close>, with \<open>i\<close> in decimal, at every
  position \<open>1 \<le> i < n\<close>; for \<open>n = 1\<close> it is the one-element list \<^verbatim>\<open>['main_input']\<close>.
\<close>

theorem input_names_spec:
  assumes "1 \<le> n"
  shows "length (input_names n) = nat n \<and>
         input_names n ! 0 = ''main_input'' \<and>
         (\<forall>i. 1 \<le> i \<and> i < n \<longrightarrow> input_names n ! nat i = ''solar_'' @ format_d i) \<and>
         (n = 1 \<longrightarrow> input_names n = [''main_input''])"
proof (intro conjI allI impI)
  show "length (input_names n) = nat n"
    using assms by (simp add: input_names_def length_py_range)
  show "input_names n ! 0 = ''main_input''"
    by (simp add: input_names_def)
  show "input_names n ! nat i = ''solar_'' @ format_d i" if "1 \<le> i \<and> i < n" for i
  proof -
    from that have "nat i = Suc (nat (i - 1))" by linarith
    moreover have "nat (i - 1) < length (py_range 1 n)"
      using that by (simp add: length_py_range)
    moreover have "py_range 1 n ! nat (i - 1) = i"
      using that nth_py_range [of "i - 1" 1 n] by simp
    ultimately show ?thesis by (simp add: input_names_def)
  qed
  show "input_names n = [''main_input'']" if "n = 1"
    using that by (simp add: input_names_def py_range_def)
qed

text \<open>Three integration steps give three names, one integration step gives one.\<close>

theorem input_names_spec_witness:
  "input_names 3 = [''main_input'', ''solar_1'', ''solar_2''] \<and>
   length (input_names 3) = 3 \<and>
   input_names 1 = [''main_input'']"
  using input_names_spec [of 3] input_names_spec [of 1]
  by (simp add: input_names_def py_range_def upto_rec1 format_d_1 format_d_2)

subsection \<open>C10: the inputs of the Keras model\<close>

text \<open>
  C10.  With the model function bound, the cell that builds the model succeeds, and the
  model has the inputs of the notebook: a single tensor exactly when \<^verbatim>\<open>input_solar\<close> is
  false, and, when \<^verbatim>\<open>input_solar\<close> is true, the list of the main input and the
  \<^verbatim>\<open>integration_steps - 1\<close> insolation inputs, \<^verbatim>\<open>integration_steps\<close> tensors in all.
  Consequently, when \<^verbatim>\<open>add_solar\<close> is false and \<^verbatim>\<open>integration_steps > 1\<close>, the list
  \<^verbatim>\<open>input_names\<close> that is passed to \<^verbatim>\<open>tf_data_generator\<close> is longer than the number of
  inputs of the model.
\<close>

theorem model_inputs_spec:
  "(globals P (cnn_model_name P) \<noteq> None \<longrightarrow>
      (\<exists>m. model L P = Inr m \<and> model_inputs m = inputs L P)) \<and>
   ((\<exists>x. inputs L P = Tensor x) \<longleftrightarrow> \<not> input_solar P) \<and>
   (input_solar P \<longrightarrow>
      inputs L P = Sequence (main_input L P # solar_inputs L P) \<and>
      length (solar_inputs L P) = nat (integration_steps P - 1) \<and>
      n_inputs (inputs L P) = nat (integration_steps P)) \<and>
   (\<not> add_solar P \<and> integration_steps P > 1 \<longrightarrow>
      n_inputs (inputs L P) < length (input_names (integration_steps P)))"
proof (intro conjI impI)
  assume "globals P (cnn_model_name P) \<noteq> None"
  then obtain f where g: "globals P (cnn_model_name P) = Some f" by blast
  from complete_model_total [OF g inputs_accepted, of L L]
  obtain outputs where "complete_model L P (inputs L P) = Inr outputs" by blast
  then show "\<exists>m. model L P = Inr m \<and> model_inputs m = inputs L P"
    by (simp add: model_def)
next
  show "(\<exists>x. inputs L P = Tensor x) \<longleftrightarrow> \<not> input_solar P"
    by (simp add: inputs_def Let_def)
next
  assume sol: "input_solar P"
  then show i: "inputs L P = Sequence (main_input L P # solar_inputs L P)"
    by (simp add: inputs_def Let_def)
  show l: "length (solar_inputs L P) = nat (integration_steps P - 1)"
    by (simp add: solar_inputs_def length_py_range)
  have "1 < integration_steps P" using sol by (simp add: input_solar_def)
  then have "Suc (nat (integration_steps P - 1)) = nat (integration_steps P)" by linarith
  then show "n_inputs (inputs L P) = nat (integration_steps P)"
    by (simp add: i l)
next
  assume "\<not> add_solar P \<and> integration_steps P > 1"
  then show "n_inputs (inputs L P) < length (input_names (integration_steps P))"
    by (simp add: inputs_def input_solar_def input_names_def length_py_range)
qed

text \<open>
  With two integration steps the model has the two inputs \<^verbatim>\<open>main_input\<close> and \<^verbatim>\<open>solar_1\<close>
  when insolation is added, and the single input \<^verbatim>\<open>main_input\<close>, against two input names,
  when it is not.
\<close>

theorem model_inputs_spec_witness:
  "(\<exists>m. model keras (tutorial 2 True) = Inr m \<and>
        model_inputs m = Sequence [main_in, solar_in]) \<and>
   (\<exists>m. model keras (tutorial 2 False) = Inr m \<and>
        model_inputs m = Tensor main_in) \<and>
   n_inputs (inputs keras (tutorial 2 False)) = 1 \<and>
   length (input_names 2) = 2"
proof -
  let ?P = "tutorial 2 True"
  let ?Q = "tutorial 2 False"
  have i: "inputs keras ?P = Sequence [main_in, solar_in]"
    by (simp add: inputs_def input_solar_def main_input_def solar_inputs_def py_range_def
        upto_rec1 format_d_1 Let_def)
  have j: "inputs keras ?Q = Tensor main_in"
    by (simp add: inputs_def input_solar_def main_input_def)
  have "globals ?P (cnn_model_name ?P) \<noteq> None" and "globals ?Q (cnn_model_name ?Q) \<noteq> None"
    by simp_all
  with model_inputs_spec [of ?P keras] model_inputs_spec [of ?Q keras]
  have "\<exists>m. model keras ?P = Inr m \<and> model_inputs m = inputs keras ?P"
    and "\<exists>m. model keras ?Q = Inr m \<and> model_inputs m = inputs keras ?Q"
    by blast+
  then show ?thesis
    unfolding i j by (simp add: input_names_def py_range_def upto_rec1)
qed

section \<open>Further properties\<close>

text \<open>
  The decimal conversion is injective, so the input names, which are also the names of
  the Keras input layers, are pairwise distinct for every number of integration steps.
\<close>

lemma digit_char_inj: "a < 10 \<Longrightarrow> b < 10 \<Longrightarrow> digit_char a = digit_char b \<Longrightarrow> a = b"
proof -
  have d: "distinct ''0123456789''" by simp
  have l: "length ''0123456789'' = 10" by simp
  show "a < 10 \<Longrightarrow> b < 10 \<Longrightarrow> digit_char a = digit_char b \<Longrightarrow> a = b"
    unfolding digit_char_def using nth_eq_iff_index_eq [OF d, of a b] l by metis
qed

lemma digits_small: "n < 10 \<Longrightarrow> digits n = [digit_char n]"
  by simp

lemma digits_large: "\<not> n < 10 \<Longrightarrow> digits n = digits (n div 10) @ [digit_char (n mod 10)]"
  by (subst digits.simps) simp

lemma digits_not_Nil: "digits n \<noteq> []"
  by (cases "n < 10") (simp_all only: digits_small digits_large, simp_all)

lemma digits_inj: "digits m = digits n \<Longrightarrow> m = n"
proof (induction m arbitrary: n rule: digits.induct)
  case (1 m)
  show ?case
  proof (cases "m < 10")
    case m: True
    show ?thesis
    proof (cases "n < 10")
      case True
      with m "1.prems" show ?thesis by (simp only: digits_small) (simp add: digit_char_inj)
    next
      case False
      with m "1.prems" digits_not_Nil [of "n div 10"] show ?thesis
        by (simp only: digits_small digits_large) (cases "digits (n div 10)", simp_all)
    qed
  next
    case m: False
    show ?thesis
    proof (cases "n < 10")
      case True
      with m "1.prems" digits_not_Nil [of "m div 10"] show ?thesis
        by (simp only: digits_small digits_large) (cases "digits (m div 10)", simp_all)
    next
      case False
      have "digits (m div 10) @ [digit_char (m mod 10)] = digits (n div 10) @ [digit_char (n mod 10)]"
        using "1.prems" digits_large [OF m] digits_large [OF False] by simp
      then have "digits (m div 10) = digits (n div 10)"
        and "digit_char (m mod 10) = digit_char (n mod 10)"
        by simp_all
      with "1.IH" [OF m] have "m div 10 = n div 10" and "m mod 10 = n mod 10"
        by (auto intro: digit_char_inj)
      then show ?thesis by (metis div_mult_mod_eq)
    qed
  qed
qed

lemma format_d_inj: "0 \<le> i \<Longrightarrow> 0 \<le> j \<Longrightarrow> format_d i = format_d j \<Longrightarrow> i = j"
  using digits_inj [of "nat i" "nat j"] by (simp add: format_d_def)

lemma input_names_distinct: "distinct (input_names n)"
proof -
  have "inj_on (\<lambda>i. ''solar_'' @ format_d i) (set (py_range 1 n))"
    by (rule inj_onI) (auto simp add: py_range_def intro: format_d_inj)
  moreover have "distinct (py_range 1 n)" by (simp add: py_range_def)
  ultimately have "distinct (map (\<lambda>i. ''solar_'' @ format_d i) (py_range 1 n))"
    by (simp add: distinct_map)
  then show ?thesis by (auto simp add: input_names_def)
qed

text \<open>
  With the parameters of the notebook, whatever the number of integration steps and
  whether or not insolation is added, the cell that builds the model calls
  \<^verbatim>\<open>complete_model\<close> on an accepted input: the model is always built.
\<close>

lemma notebook_model_is_built: "\<exists>m. model L (notebook L n b s t) = Inr m"
proof -
  let ?P = "notebook L n b s t"
  have "globals ?P (cnn_model_name ?P) = Some (unet2 L)" by simp
  from complete_model_total [OF this inputs_accepted, of L L]
  show ?thesis by (auto simp add: model_def)
qed

text \<open>
  The two exceptions of \<^verbatim>\<open>complete_model\<close> itself: \<^verbatim>\<open>KeyError\<close> exactly when
  \<^verbatim>\<open>cnn_model_name\<close> is not bound, and \<^verbatim>\<open>IndexError\<close> exactly when it is bound and the input
  is not accepted.
\<close>

lemma complete_model_errors:
  "(complete_model L P x_in = Inl KeyError \<longleftrightarrow> globals P (cnn_model_name P) = None) \<and>
   (complete_model L P x_in = Inl IndexError \<longleftrightarrow>
      globals P (cnn_model_name P) \<noteq> None \<and> \<not> accepted P x_in)"
proof (cases "globals P (cnn_model_name P)")
  case None
  then show ?thesis by (simp add: complete_model_KeyError)
next
  case (Some f)
  show ?thesis
  proof (cases "accepted P x_in")
    case True
    from complete_model_total [OF Some True, of L] Some True show ?thesis by auto
  next
    case False
    from complete_model_IndexError [OF Some False, of L] Some False show ?thesis by simp
  qed
qed

end
